theory Spec2Isabelle
  imports Complex_Main "HOL-Library.Word"
begin

section \<open>Machine types and the environment\<close>

text \<open>
  The firmware runs on a 32-bit target: \<open>uint32_t\<close> and the FreeRTOS tick type are
  32-bit words whose arithmetic wraps, \<open>uint8_t\<close> is an 8-bit word.
\<close>

type_synonym uint8_t = "8 word"
type_synonym uint32_t = "32 word"
type_synonym TickType_t = "32 word"

text \<open>
  The C type \<open>float\<close> is kept abstract: a type variable \<open>'f\<close> together with the
  operations the source applies to it.  Every function of the embedding takes the
  operations as its first argument, so nothing proved below depends on how the
  hardware rounds; IEEE single precision is one instance, exact arithmetic another.
\<close>

record 'f float_ops =
  f_zero :: 'f
  f_one :: 'f
  f_add :: "'f \<Rightarrow> 'f \<Rightarrow> 'f"
  f_sub :: "'f \<Rightarrow> 'f \<Rightarrow> 'f"
  f_mul :: "'f \<Rightarrow> 'f \<Rightarrow> 'f"
  f_div :: "'f \<Rightarrow> 'f \<Rightarrow> 'f"
  f_neg :: "'f \<Rightarrow> 'f"
  f_ge :: "'f \<Rightarrow> 'f \<Rightarrow> bool"
  f_gt :: "'f \<Rightarrow> 'f \<Rightarrow> bool"
  f_of_uint32 :: "uint32_t \<Rightarrow> 'f"

text \<open>
  What one call of a service function observes of FreeRTOS: the handle
  \<open>xSemaphoreCreateMutex()\<close> returns (\<open>None\<close> is \<open>NULL\<close>), whether
  \<open>xSemaphoreTake(mutex, portMAX_DELAY)\<close> returns \<open>pdTRUE\<close>, and the values of the
  successive \<open>xTaskGetTickCount()\<close> reads of the call (numbered from 0).
\<close>

type_synonym SemaphoreHandle_t = nat

record rtos_t =
  xSemaphoreCreateMutex :: "SemaphoreHandle_t option"
  xSemaphoreTake :: bool
  xTaskGetTickCount :: "nat \<Rightarrow> TickType_t"

section \<open>Data of the metrics service (\<open>src/services/blower_metrics.c\<close>)\<close>

text \<open>
  The header \<open>services/blower_metrics.h\<close> and the driver header are not part of the
  sources at hand; the records below have exactly the fields the source file reads and
  writes.  A pointer that may be \<open>NULL\<close> is an \<open>option\<close>.  The counter
  \<open>update_sequence\<close> is taken to be a \<open>uint32_t\<close>: the source adds \<open>1u\<close> to it and
  prints it as an \<open>unsigned long\<close>.
\<close>

record 'f adp910_sample_t =
  corrected_pressure_pa :: 'f
  temperature_c :: 'f

record 'f blower_linear_fan_speed_model_config_t =
  pascal_to_speed_gain :: 'f

record 'f blower_linear_air_leakage_model_config_t =
  leakage_gain :: 'f

text \<open>
  Modelled from the spec: the enumeration of calibration states is declared in the
  missing header; the source names \<open>BLOWER_CAL_SAMPLING\<close> and \<open>BLOWER_CAL_DONE\<close>, the
  spec lists Idle/Sampling/Done, and Idle is taken to be the value 0 that \<open>memset\<close>
  leaves.
\<close>

datatype blower_calibration_state_t = BLOWER_CAL_IDLE | BLOWER_CAL_SAMPLING | BLOWER_CAL_DONE

text \<open>
  A model is a function pointer with an opaque \<open>const void *\<close> context.  The only
  contexts of the repository are the two linear configurations, so the context
  pointers are typed with them.
\<close>

record 'f blower_metrics_models_t =
  fan_speed_model ::
    "('f \<Rightarrow> 'f blower_linear_fan_speed_model_config_t option \<Rightarrow> 'f) option"
  fan_speed_model_context :: "'f blower_linear_fan_speed_model_config_t option"
  air_leakage_model ::
    "('f \<Rightarrow> 'f \<Rightarrow> 'f blower_linear_air_leakage_model_config_t option \<Rightarrow> 'f) option"
  air_leakage_model_context :: "'f blower_linear_air_leakage_model_config_t option"

record 'f blower_metrics_snapshot_t =
  fan_pressure_pa :: 'f
  fan_temperature_c :: 'f
  fan_sample_valid :: bool
  envelope_pressure_pa :: 'f
  envelope_temperature_c :: 'f
  envelope_sample_valid :: bool
  fan_speed_units :: 'f
  estimated_air_leakage_units :: 'f
  calibration_state :: blower_calibration_state_t
  calibration_progress_pct :: uint8_t
  calibration_fan_offset :: 'f
  calibration_envelope_offset :: 'f
  update_sequence :: uint32_t
  last_update_tick :: uint32_t

record 'f calibration_accumulator_t =
  active :: bool
  start_tick :: TickType_t
  fan_sum :: 'f
  envelope_sum :: 'f
  fan_count :: uint32_t
  envelope_count :: uint32_t

record 'f blower_metrics_service_context_t =
  mutex :: "SemaphoreHandle_t option"
  models :: "'f blower_metrics_models_t"
  snapshot :: "'f blower_metrics_snapshot_t"
  fan_pressure_offset_pa :: 'f
  envelope_pressure_offset_pa :: 'f
  last_fan_pressure_raw_pa :: 'f
  last_envelope_pressure_raw_pa :: 'f
  has_last_fan_pressure_raw :: bool
  has_last_envelope_pressure_raw :: bool
  is_initialized :: bool
  cal :: "'f calibration_accumulator_t"

definition CALIBRATION_DURATION_MS :: uint32_t where
  "CALIBRATION_DURATION_MS = 10000"

definition CALIBRATION_MIN_SAMPLES :: uint32_t where
  "CALIBRATION_MIN_SAMPLES = 20"

text \<open>What \<open>memset(&x, 0, sizeof x)\<close> leaves in a snapshot and in an accumulator.\<close>

definition snapshot_zero :: "'f float_ops \<Rightarrow> 'f blower_metrics_snapshot_t" where
  "snapshot_zero F =
     \<lparr>fan_pressure_pa = f_zero F, fan_temperature_c = f_zero F, fan_sample_valid = False,
      envelope_pressure_pa = f_zero F, envelope_temperature_c = f_zero F,
      envelope_sample_valid = False, fan_speed_units = f_zero F,
      estimated_air_leakage_units = f_zero F, calibration_state = BLOWER_CAL_IDLE,
      calibration_progress_pct = 0, calibration_fan_offset = f_zero F,
      calibration_envelope_offset = f_zero F, update_sequence = 0, last_update_tick = 0\<rparr>"

definition cal_zero :: "'f float_ops \<Rightarrow> 'f calibration_accumulator_t" where
  "cal_zero F =
     \<lparr>active = False, start_tick = 0, fan_sum = f_zero F, envelope_sum = f_zero F,
      fan_count = 0, envelope_count = 0\<rparr>"

text \<open>The static \<open>g_service_context\<close> before any call: all bytes zero.\<close>

definition g_service_context :: "'f float_ops \<Rightarrow> 'f blower_metrics_service_context_t" where
  "g_service_context F =
     \<lparr>mutex = None,
      models = \<lparr>fan_speed_model = None, fan_speed_model_context = None,
                air_leakage_model = None, air_leakage_model_context = None\<rparr>,
      snapshot = snapshot_zero F,
      fan_pressure_offset_pa = f_zero F, envelope_pressure_offset_pa = f_zero F,
      last_fan_pressure_raw_pa = f_zero F, last_envelope_pressure_raw_pa = f_zero F,
      has_last_fan_pressure_raw = False, has_last_envelope_pressure_raw = False,
      is_initialized = False, cal = cal_zero F\<rparr>"

section \<open>The model pipeline\<close>

definition blower_absf :: "'f float_ops \<Rightarrow> 'f \<Rightarrow> 'f" where
  "blower_absf F v = (if f_ge F v (f_zero F) then v else f_neg F v)"

definition blower_linear_fan_speed_model ::
  "'f float_ops \<Rightarrow> 'f \<Rightarrow> 'f blower_linear_fan_speed_model_config_t option \<Rightarrow> 'f" where
  "blower_linear_fan_speed_model F pressure_pa config =
     (let gain = (case config of
                    None \<Rightarrow> f_one F
                  | Some c \<Rightarrow> if f_gt F (pascal_to_speed_gain c) (f_zero F)
                              then pascal_to_speed_gain c else f_one F)
      in f_mul F (blower_absf F pressure_pa) gain)"

definition blower_linear_air_leakage_model ::
  "'f float_ops \<Rightarrow> 'f \<Rightarrow> 'f \<Rightarrow> 'f blower_linear_air_leakage_model_config_t option \<Rightarrow> 'f" where
  "blower_linear_air_leakage_model F speed_units pressure_pa config =
     (let gain = (case config of
                    None \<Rightarrow> f_one F
                  | Some c \<Rightarrow> if f_gt F (leakage_gain c) (f_zero F)
                              then leakage_gain c else f_one F)
      in f_mul F (f_mul F speed_units (blower_absf F pressure_pa)) gain)"

definition blower_metrics_service_apply_default_models ::
  "'f float_ops \<Rightarrow> 'f blower_metrics_models_t \<Rightarrow> 'f blower_metrics_models_t" where
  "blower_metrics_service_apply_default_models F m =
     m\<lparr>fan_speed_model := Some (blower_linear_fan_speed_model F),
       fan_speed_model_context := None,
       air_leakage_model := Some (blower_linear_air_leakage_model F),
       air_leakage_model_context := None\<rparr>"

text \<open>
  The pipeline \<open>blower_metrics_service_apply_default_models\<close> leaves, whatever was
  installed before: all four fields are overwritten.
\<close>

definition default_models :: "'f float_ops \<Rightarrow> 'f blower_metrics_models_t" where
  "default_models F =
     \<lparr>fan_speed_model = Some (blower_linear_fan_speed_model F), fan_speed_model_context = None,
      air_leakage_model = Some (blower_linear_air_leakage_model F),
      air_leakage_model_context = None\<rparr>"

section \<open>The service operations\<close>

text \<open>
  \<open>blower_metrics_service_initialize\<close>.  The argument is \<open>None\<close> for a \<open>NULL\<close> pointer.
  The result of the \<open>xSemaphoreTake\<close> in this function is not looked at by the source.
\<close>

definition blower_metrics_service_initialize ::
  "'f float_ops \<Rightarrow> rtos_t \<Rightarrow> 'f blower_metrics_models_t option \<Rightarrow>
   'f blower_metrics_service_context_t \<Rightarrow> 'f blower_metrics_service_context_t" where
  "blower_metrics_service_initialize F os models_arg g =
     (let g1 = (if Option.is_none (mutex g) then g\<lparr>mutex := xSemaphoreCreateMutex os\<rparr> else g)
      in if Option.is_none (mutex g1) then g1
         else
           let g2 = (case models_arg of
                       None \<Rightarrow>
                         g1\<lparr>models := blower_metrics_service_apply_default_models F (models g1)\<rparr>
                     | Some m \<Rightarrow>
                         if \<not> Option.is_none (fan_speed_model m) \<and>
                            \<not> Option.is_none (air_leakage_model m)
                         then g1\<lparr>models := m\<rparr>
                         else g1\<lparr>models :=
                                blower_metrics_service_apply_default_models F (models g1)\<rparr>)
           in g2\<lparr>snapshot := snapshot_zero F,
                 fan_pressure_offset_pa := f_zero F,
                 envelope_pressure_offset_pa := f_zero F,
                 last_fan_pressure_raw_pa := f_zero F,
                 last_envelope_pressure_raw_pa := f_zero F,
                 has_last_fan_pressure_raw := False,
                 has_last_envelope_pressure_raw := False,
                 cal := cal_zero F,
                 is_initialized := True\<rparr>)"

text \<open>
  The sample a role contributes in a cycle: the source tests
  \<open>valid && sample != NULL\<close> before every dereference.
\<close>

definition checked_sample :: "'a option \<Rightarrow> bool \<Rightarrow> 'a option" where
  "checked_sample sample_ptr valid = (if valid then sample_ptr else None)"

text \<open>Lines 121-130 and 132-143 of \<open>blower_metrics_service_update\<close>.\<close>

definition update_fan_role ::
  "'f float_ops \<Rightarrow> 'f adp910_sample_t option \<Rightarrow> bool \<Rightarrow>
   'f blower_metrics_service_context_t \<Rightarrow> 'f blower_metrics_service_context_t" where
  "update_fan_role F fan_sample fan_valid g =
     (case checked_sample fan_sample fan_valid of
        Some s \<Rightarrow>
          g\<lparr>last_fan_pressure_raw_pa := corrected_pressure_pa s,
            has_last_fan_pressure_raw := True,
            snapshot := (snapshot g)
              \<lparr>fan_pressure_pa := f_sub F (corrected_pressure_pa s) (fan_pressure_offset_pa g),
               fan_temperature_c := temperature_c s,
               fan_sample_valid := True\<rparr>\<rparr>
      | None \<Rightarrow> g\<lparr>snapshot := (snapshot g)\<lparr>fan_sample_valid := False\<rparr>\<rparr>)"

definition update_envelope_role ::
  "'f float_ops \<Rightarrow> 'f adp910_sample_t option \<Rightarrow> bool \<Rightarrow>
   'f blower_metrics_service_context_t \<Rightarrow> 'f blower_metrics_service_context_t" where
  "update_envelope_role F envelope_sample envelope_valid g =
     (case checked_sample envelope_sample envelope_valid of
        Some s \<Rightarrow>
          g\<lparr>last_envelope_pressure_raw_pa := corrected_pressure_pa s,
            has_last_envelope_pressure_raw := True,
            snapshot := (snapshot g)
              \<lparr>envelope_pressure_pa :=
                 f_sub F (corrected_pressure_pa s) (envelope_pressure_offset_pa g),
               envelope_temperature_c := temperature_c s,
               envelope_sample_valid := True\<rparr>\<rparr>
      | None \<Rightarrow> g\<lparr>snapshot := (snapshot g)\<lparr>envelope_sample_valid := False\<rparr>\<rparr>)"

text \<open>Lines 152-160: the accumulation of the cycle's valid samples.\<close>

definition cal_accumulate ::
  "'f float_ops \<Rightarrow> 'f adp910_sample_t option \<Rightarrow> bool \<Rightarrow> 'f adp910_sample_t option \<Rightarrow> bool \<Rightarrow>
   'f calibration_accumulator_t \<Rightarrow> 'f calibration_accumulator_t" where
  "cal_accumulate F fan_sample fan_valid envelope_sample envelope_valid c =
     (let c1 = (case checked_sample fan_sample fan_valid of
                  Some s \<Rightarrow> c\<lparr>fan_sum := f_add F (fan_sum c) (corrected_pressure_pa s),
                              fan_count := fan_count c + 1\<rparr>
                | None \<Rightarrow> c)
      in case checked_sample envelope_sample envelope_valid of
           Some s \<Rightarrow> c1\<lparr>envelope_sum := f_add F (envelope_sum c1) (corrected_pressure_pa s),
                        envelope_count := envelope_count c1 + 1\<rparr>
         | None \<Rightarrow> c1)"

text \<open>Lines 162-166: the window is still open.\<close>

definition cal_report_progress ::
  "uint32_t \<Rightarrow> 'f blower_metrics_service_context_t \<Rightarrow> 'f blower_metrics_service_context_t" where
  "cal_report_progress elapsed_ms g =
     (let pct0 = (elapsed_ms * 100) div CALIBRATION_DURATION_MS;
          pct = (if pct0 > 99 then 99 else pct0)
      in g\<lparr>snapshot := (snapshot g)
            \<lparr>calibration_state := BLOWER_CAL_SAMPLING,
             calibration_progress_pct := ucast pct\<rparr>\<rparr>)"

text \<open>Lines 168-191: the window is over; each role is decided on its own count.\<close>

definition cal_finalize ::
  "'f float_ops \<Rightarrow> 'f blower_metrics_service_context_t \<Rightarrow> 'f blower_metrics_service_context_t" where
  "cal_finalize F g =
     (let g1 = (if fan_count (cal g) \<ge> CALIBRATION_MIN_SAMPLES
                then (let off = f_div F (fan_sum (cal g)) (f_of_uint32 F (fan_count (cal g)))
                      in g\<lparr>fan_pressure_offset_pa := off,
                           snapshot := (snapshot g)
                             \<lparr>fan_pressure_pa := f_sub F (last_fan_pressure_raw_pa g) off\<rparr>\<rparr>)
                else g);
          g2 = (if envelope_count (cal g1) \<ge> CALIBRATION_MIN_SAMPLES
                then (let off = f_div F (envelope_sum (cal g1))
                                  (f_of_uint32 F (envelope_count (cal g1)))
                      in g1\<lparr>envelope_pressure_offset_pa := off,
                            snapshot := (snapshot g1)
                              \<lparr>envelope_pressure_pa :=
                                 f_sub F (last_envelope_pressure_raw_pa g1) off\<rparr>\<rparr>)
                else g1)
      in g2\<lparr>snapshot := (snapshot g2)
              \<lparr>calibration_fan_offset := fan_pressure_offset_pa g2,
               calibration_envelope_offset := envelope_pressure_offset_pa g2,
               calibration_state := BLOWER_CAL_DONE,
               calibration_progress_pct := 100\<rparr>,
            cal := (cal g2)\<lparr>active := False\<rparr>\<rparr>)"

text \<open>
  The elapsed milliseconds of line 148-150: tick subtraction and the multiplication
  by \<open>portTICK_PERIOD_MS\<close> are 32-bit and wrap.  The macro comes from the FreeRTOS
  configuration and is a parameter here.
\<close>

definition cal_elapsed_ms :: "TickType_t \<Rightarrow> TickType_t \<Rightarrow> TickType_t \<Rightarrow> uint32_t" where
  "cal_elapsed_ms portTICK_PERIOD_MS now_tick start = (now_tick - start) * portTICK_PERIOD_MS"

text \<open>Lines 146-193: the calibration block.\<close>

definition cal_block ::
  "'f float_ops \<Rightarrow> TickType_t \<Rightarrow> rtos_t \<Rightarrow>
   'f adp910_sample_t option \<Rightarrow> bool \<Rightarrow> 'f adp910_sample_t option \<Rightarrow> bool \<Rightarrow>
   'f blower_metrics_service_context_t \<Rightarrow> 'f blower_metrics_service_context_t" where
  "cal_block F portTICK_PERIOD_MS os fan_sample fan_valid envelope_sample envelope_valid g =
     (if active (cal g)
      then (let now_tick = xTaskGetTickCount os 0;
                elapsed_ms = cal_elapsed_ms portTICK_PERIOD_MS now_tick (start_tick (cal g));
                g1 = g\<lparr>cal := cal_accumulate F fan_sample fan_valid
                                 envelope_sample envelope_valid (cal g)\<rparr>
            in if elapsed_ms < CALIBRATION_DURATION_MS
               then cal_report_progress elapsed_ms g1
               else cal_finalize F g1)
      else g)"

text \<open>
  Lines 195-203, shared with lines 252-259 of the zero capture: the derived metrics, the
  sequence number and the time stamp.  A call through a \<open>NULL\<close> function pointer is
  the result \<open>None\<close>: the program faults there.
\<close>

definition recompute_and_stamp ::
  "TickType_t \<Rightarrow> 'f blower_metrics_service_context_t \<Rightarrow>
   'f blower_metrics_service_context_t option" where
  "recompute_and_stamp stamp g =
     (case fan_speed_model (models g) of
        None \<Rightarrow> None
      | Some fan_model \<Rightarrow>
          (case air_leakage_model (models g) of
             None \<Rightarrow> None
           | Some leak_model \<Rightarrow>
               (let speed = fan_model (fan_pressure_pa (snapshot g))
                              (fan_speed_model_context (models g));
                    leak = leak_model speed (envelope_pressure_pa (snapshot g))
                              (air_leakage_model_context (models g))
                in Some (g\<lparr>snapshot := (snapshot g)
                           \<lparr>fan_speed_units := speed,
                            estimated_air_leakage_units := leak,
                            update_sequence := update_sequence (snapshot g) + 1,
                            last_update_tick := stamp\<rparr>\<rparr>))))"

text \<open>
  \<open>blower_metrics_service_update\<close>.  An early return gives the state as it is then.
  The time stamp is the second tick read of the call when the calibration block ran,
  the first otherwise.
\<close>

definition blower_metrics_service_update ::
  "'f float_ops \<Rightarrow> TickType_t \<Rightarrow> rtos_t \<Rightarrow>
   'f adp910_sample_t option \<Rightarrow> bool \<Rightarrow> 'f adp910_sample_t option \<Rightarrow> bool \<Rightarrow>
   'f blower_metrics_service_context_t \<Rightarrow> 'f blower_metrics_service_context_t option" where
  "blower_metrics_service_update F portTICK_PERIOD_MS os
       fan_sample fan_valid envelope_sample envelope_valid g =
     (let g0 = (if \<not> is_initialized g then blower_metrics_service_initialize F os None g else g)
      in if \<not> is_initialized g0 \<or> Option.is_none (mutex g0) then Some g0
         else if \<not> xSemaphoreTake os then Some g0
         else
           let g1 = update_fan_role F fan_sample fan_valid g0;
               g2 = update_envelope_role F envelope_sample envelope_valid g1;
               g3 = cal_block F portTICK_PERIOD_MS os
                      fan_sample fan_valid envelope_sample envelope_valid g2;
               stamp = xTaskGetTickCount os (if active (cal g2) then 1 else 0)
           in recompute_and_stamp stamp g3)"

text \<open>
  \<open>blower_metrics_service_get_snapshot\<close>: the caller's buffer (\<open>None\<close> for a \<open>NULL\<close>
  pointer) after the call, and the returned flag.  The service state is not written.
\<close>

definition blower_metrics_service_get_snapshot ::
  "rtos_t \<Rightarrow> 'f blower_metrics_snapshot_t option \<Rightarrow> 'f blower_metrics_service_context_t \<Rightarrow>
   bool \<times> 'f blower_metrics_snapshot_t option" where
  "blower_metrics_service_get_snapshot os out_snapshot g =
     (if Option.is_none out_snapshot \<or> Option.is_none (mutex g) \<or> \<not> is_initialized g
      then (False, out_snapshot)
      else if xSemaphoreTake os then (True, Some (snapshot g))
      else (False, out_snapshot))"

text \<open>\<open>blower_metrics_service_capture_zero_offsets\<close>: the returned flag and the state.\<close>

definition blower_metrics_service_capture_zero_offsets ::
  "'f float_ops \<Rightarrow> rtos_t \<Rightarrow> 'f blower_metrics_service_context_t \<Rightarrow>
   (bool \<times> 'f blower_metrics_service_context_t) option" where
  "blower_metrics_service_capture_zero_offsets F os g =
     (if Option.is_none (mutex g) \<or> \<not> is_initialized g then Some (False, g)
      else if \<not> xSemaphoreTake os then Some (False, g)
      else
        let fan_cap = (fan_sample_valid (snapshot g) \<and> has_last_fan_pressure_raw g);
            g1 = (if fan_cap
                  then g\<lparr>fan_pressure_offset_pa := last_fan_pressure_raw_pa g,
                         snapshot := (snapshot g)\<lparr>fan_pressure_pa := f_zero F\<rparr>\<rparr>
                  else g);
            env_cap = (envelope_sample_valid (snapshot g1) \<and> has_last_envelope_pressure_raw g1);
            g2 = (if env_cap
                  then g1\<lparr>envelope_pressure_offset_pa := last_envelope_pressure_raw_pa g1,
                          snapshot := (snapshot g1)\<lparr>envelope_pressure_pa := f_zero F\<rparr>\<rparr>
                  else g1);
            captured = (fan_cap \<or> env_cap)
        in if captured
           then map_option (Pair True) (recompute_and_stamp (xTaskGetTickCount os 0) g2)
           else Some (False, g2))"

text \<open>\<open>blower_metrics_service_begin_calibration\<close>.\<close>

definition blower_metrics_service_begin_calibration ::
  "'f float_ops \<Rightarrow> rtos_t \<Rightarrow> 'f blower_metrics_service_context_t \<Rightarrow>
   'f blower_metrics_service_context_t" where
  "blower_metrics_service_begin_calibration F os g =
     (if Option.is_none (mutex g) \<or> \<not> is_initialized g then g
      else if \<not> xSemaphoreTake os then g
      else g\<lparr>fan_pressure_offset_pa := f_zero F,
             envelope_pressure_offset_pa := f_zero F,
             cal := \<lparr>active = True, start_tick = xTaskGetTickCount os 0,
                     fan_sum = f_zero F, envelope_sum = f_zero F,
                     fan_count = 0, envelope_count = 0\<rparr>,
             snapshot := (snapshot g)
               \<lparr>calibration_state := BLOWER_CAL_SAMPLING,
                calibration_progress_pct := 0\<rparr>\<rparr>)"

section \<open>Sequences of service calls\<close>

text \<open>
  The calls other threads and the sampling task make on an initialised or fresh
  service, each with what it observes of FreeRTOS.  \<open>service_step\<close> gives the state
  after a call and whether the call was a successful ingestion: an update that took
  the lock and ran its body, or a zero capture that returned \<open>true\<close>.
\<close>

datatype 'f service_call =
    Call_update "'f adp910_sample_t option" bool "'f adp910_sample_t option" bool
  | Call_get_snapshot "'f blower_metrics_snapshot_t option"
  | Call_capture_zero_offsets
  | Call_begin_calibration

definition update_commits ::
  "'f float_ops \<Rightarrow> rtos_t \<Rightarrow> 'f blower_metrics_service_context_t \<Rightarrow> bool" where
  "update_commits F os g =
     (let g0 = (if \<not> is_initialized g then blower_metrics_service_initialize F os None g else g)
      in is_initialized g0 \<and> \<not> Option.is_none (mutex g0) \<and> xSemaphoreTake os)"

fun service_step ::
  "'f float_ops \<Rightarrow> TickType_t \<Rightarrow> rtos_t \<times> 'f service_call \<Rightarrow>
   'f blower_metrics_service_context_t \<Rightarrow> (bool \<times> 'f blower_metrics_service_context_t) option" where
  "service_step F period (os, Call_update fs fv es ev) g =
     map_option (Pair (update_commits F os g))
       (blower_metrics_service_update F period os fs fv es ev g)"
| "service_step F period (os, Call_get_snapshot out) g = Some (False, g)"
| "service_step F period (os, Call_capture_zero_offsets) g =
     blower_metrics_service_capture_zero_offsets F os g"
| "service_step F period (os, Call_begin_calibration) g =
     Some (False, blower_metrics_service_begin_calibration F os g)"

fun service_run ::
  "'f float_ops \<Rightarrow> TickType_t \<Rightarrow> (rtos_t \<times> 'f service_call) list \<Rightarrow>
   'f blower_metrics_service_context_t \<Rightarrow> (nat \<times> 'f blower_metrics_service_context_t) option" where
  "service_run F period [] g = Some (0, g)"
| "service_run F period (c # cs) g =
     (case service_step F period c g of
        None \<Rightarrow> None
      | Some (counted, g') \<Rightarrow>
          map_option (\<lambda>(n, g''). ((if counted then 1 else 0) + n, g''))
            (service_run F period cs g'))"

text \<open>
  The states the program can be in: once initialised the mutex exists and both model
  pointers are set; before that the snapshot is still the zeroed static.
\<close>

definition service_wf :: "'f blower_metrics_service_context_t \<Rightarrow> bool" where
  "service_wf g =
     (if is_initialized g
      then \<not> Option.is_none (mutex g) \<and> \<not> Option.is_none (fan_speed_model (models g)) \<and>
           \<not> Option.is_none (air_leakage_model (models g))
      else update_sequence (snapshot g) = 0)"

section \<open>The sensor channel of the sampling task\<close>

text \<open>
  Modelled from the spec: the outcome enumeration \<open>adp910_status_t\<close> is declared in the
  driver header, which is missing; the five named outcomes are those the task
  switches on, and \<open>ADP910_STATUS_UNKNOWN\<close> stands for every other value (the
  \<open>default\<close> branches).
\<close>

datatype adp910_status_t =
    ADP910_STATUS_OK
  | ADP910_STATUS_INVALID_ARGUMENT
  | ADP910_STATUS_BUS_ERROR
  | ADP910_STATUS_NOT_READY
  | ADP910_STATUS_CRC_MISMATCH
  | ADP910_STATUS_UNKNOWN int

record adp910_diag_t =
  ok :: uint32_t
  invalid_argument :: uint32_t
  bus_error :: uint32_t
  not_ready :: uint32_t
  crc_mismatch :: uint32_t
  other :: uint32_t
  last_status :: adp910_status_t

text \<open>
  The port descriptor and the driver's sensor object are opaque to the task (types
  \<open>'p\<close> and \<open>'s\<close>).  The field \<open>id\<close> of the source is \<open>id'\<close> here.
\<close>

record ('f, 'p, 's) adp910_channel_t =
  id' :: string
  port :: 'p
  sensor :: 's
  diag :: adp910_diag_t
  ready :: bool
  next_init_tick :: TickType_t
  sample :: "'f adp910_sample_t"
  sample_valid :: bool
  last_read_status :: adp910_status_t
  read_error_streak :: uint8_t

definition ADP910_READ_ERROR_STREAK_TO_REINIT :: uint8_t where
  "ADP910_READ_ERROR_STREAK_TO_REINIT = 3"

text \<open>
  What a driver call hands back: its status, the sensor object and (for a read) the
  sample buffer as the driver leaves them.  The driver is an external collaborator, so
  these are inputs of the model.
\<close>

record ('f, 's) adp910_driver_result =
  status_out :: adp910_status_t
  sensor_out :: 's
  sample_out :: "'f adp910_sample_t"

definition adp910_diag_record :: "adp910_diag_t \<Rightarrow> adp910_status_t \<Rightarrow> adp910_diag_t" where
  "adp910_diag_record d status =
     (let d1 = d\<lparr>last_status := status\<rparr>
      in case status of
           ADP910_STATUS_OK \<Rightarrow> d1\<lparr>ok := ok d1 + 1\<rparr>
         | ADP910_STATUS_INVALID_ARGUMENT \<Rightarrow> d1\<lparr>invalid_argument := invalid_argument d1 + 1\<rparr>
         | ADP910_STATUS_BUS_ERROR \<Rightarrow> d1\<lparr>bus_error := bus_error d1 + 1\<rparr>
         | ADP910_STATUS_NOT_READY \<Rightarrow> d1\<lparr>not_ready := not_ready d1 + 1\<rparr>
         | ADP910_STATUS_CRC_MISMATCH \<Rightarrow> d1\<lparr>crc_mismatch := crc_mismatch d1 + 1\<rparr>
         | ADP910_STATUS_UNKNOWN v \<Rightarrow> d1\<lparr>other := other d1 + 1\<rparr>)"

text \<open>
  The three per-channel steps of a cycle.  They are static functions that the task
  calls with the addresses of its two array elements, so the \<open>NULL\<close> guard never
  fires and the channel is passed by value.  The \<open>printf\<close> lines write a log and
  change no state.
\<close>

definition adp910_channel_reset_cycle ::
  "'f float_ops \<Rightarrow> ('f, 'p, 's) adp910_channel_t \<Rightarrow> ('f, 'p, 's) adp910_channel_t" where
  "adp910_channel_reset_cycle F channel =
     channel\<lparr>sample := \<lparr>corrected_pressure_pa = f_zero F, temperature_c = f_zero F\<rparr>,
             sample_valid := False,
             last_read_status := ADP910_STATUS_NOT_READY\<rparr>"

text \<open>
  \<open>backoff_ticks\<close> is \<open>pdMS_TO_TICKS(ADP910_INIT_RETRY_BACKOFF_MS)\<close>, a macro of the
  FreeRTOS configuration; \<open>init\<close> is what \<open>adp910_sensor_initialize\<close> hands back.
\<close>

definition adp910_channel_try_init ::
  "TickType_t \<Rightarrow> ('f, 's) adp910_driver_result \<Rightarrow> TickType_t \<Rightarrow>
   ('f, 'p, 's) adp910_channel_t \<Rightarrow> ('f, 'p, 's) adp910_channel_t" where
  "adp910_channel_try_init backoff_ticks init now_tick channel =
     (if ready channel \<or> now_tick < next_init_tick channel then channel
      else
        let c1 = channel\<lparr>sensor := sensor_out init,
                         ready := (status_out init = ADP910_STATUS_OK),
                         diag := adp910_diag_record (diag channel) (status_out init)\<rparr>
        in if \<not> ready c1
           then c1\<lparr>read_error_streak := 0, next_init_tick := now_tick + backoff_ticks\<rparr>
           else c1\<lparr>read_error_streak := 0\<rparr>)"

text \<open>\<open>rd\<close> is what \<open>adp910_sensor_read_sample\<close> hands back.\<close>

definition adp910_channel_read ::
  "('f, 's) adp910_driver_result \<Rightarrow> ('f, 'p, 's) adp910_channel_t \<Rightarrow>
   ('f, 'p, 's) adp910_channel_t" where
  "adp910_channel_read rd channel =
     (if \<not> ready channel then channel
      else
        let c1 = channel\<lparr>sensor := sensor_out rd,
                         sample := sample_out rd,
                         last_read_status := status_out rd,
                         diag := adp910_diag_record (diag channel) (status_out rd),
                         sample_valid := (status_out rd = ADP910_STATUS_OK)\<rparr>
        in if last_read_status c1 = ADP910_STATUS_OK then c1\<lparr>read_error_streak := 0\<rparr>
           else if last_read_status c1 = ADP910_STATUS_BUS_ERROR \<or>
                   last_read_status c1 = ADP910_STATUS_NOT_READY
           then (let c2 = (if read_error_streak c1 < 255
                           then c1\<lparr>read_error_streak := read_error_streak c1 + 1\<rparr> else c1)
                 in if read_error_streak c2 \<ge> ADP910_READ_ERROR_STREAK_TO_REINIT
                    then c2\<lparr>ready := False, read_error_streak := 0\<rparr>
                    else c2)
           else c1)"

section \<open>An exact instance of the float operations\<close>

text \<open>
  Real arithmetic, without rounding: the instance at which the theorems below are
  exercised on concrete inputs.  The inputs used there are small whole numbers, on which
  single precision computes the same sums, quotients and differences exactly.
\<close>

definition real_ops :: "real float_ops" where
  "real_ops =
     \<lparr>f_zero = 0, f_one = 1, f_add = (+), f_sub = (-), f_mul = (*), f_div = (/),
      f_neg = uminus, f_ge = (\<lambda>a b. a \<ge> b), f_gt = (\<lambda>a b. a > b),
      f_of_uint32 = (\<lambda>w. real (unat w))\<rparr>"

section \<open>Calibration windows\<close>

text \<open>
  A calibration window with start tick \<open>T\<close> is open in a state when the service is
  initialised and the accumulator is active with that start tick.  A call is inside the
  window when it is not a new \<open>begin_calibration\<close> and, for an update, the elapsed
  milliseconds the update computes are below the window duration.  The pressures a call
  adds to the accumulator of a role are those of an update that takes the lock, with a
  valid, non-\<open>NULL\<close> sample for the role.
\<close>

definition in_window :: "TickType_t \<Rightarrow> TickType_t \<Rightarrow> rtos_t \<times> 'f service_call \<Rightarrow> bool" where
  "in_window period T c =
     (case snd c of
        Call_update fs fv es ev \<Rightarrow>
          cal_elapsed_ms period (xTaskGetTickCount (fst c) 0) T < CALIBRATION_DURATION_MS
      | Call_get_snapshot out \<Rightarrow> True
      | Call_capture_zero_offsets \<Rightarrow> True
      | Call_begin_calibration \<Rightarrow> False)"

definition window_open :: "TickType_t \<Rightarrow> 'f blower_metrics_service_context_t \<Rightarrow> bool" where
  "window_open T g =
     (is_initialized g \<and> \<not> Option.is_none (mutex g) \<and>
      \<not> Option.is_none (fan_speed_model (models g)) \<and>
      \<not> Option.is_none (air_leakage_model (models g)) \<and>
      active (cal g) \<and> start_tick (cal g) = T)"

fun fan_contribution :: "rtos_t \<times> 'f service_call \<Rightarrow> 'f list" where
  "fan_contribution (os, Call_update fs fv es ev) =
     (if xSemaphoreTake os
      then (case checked_sample fs fv of Some s \<Rightarrow> [corrected_pressure_pa s] | None \<Rightarrow> [])
      else [])"
| "fan_contribution (os, Call_get_snapshot out) = []"
| "fan_contribution (os, Call_capture_zero_offsets) = []"
| "fan_contribution (os, Call_begin_calibration) = []"

fun envelope_contribution :: "rtos_t \<times> 'f service_call \<Rightarrow> 'f list" where
  "envelope_contribution (os, Call_update fs fv es ev) =
     (if xSemaphoreTake os
      then (case checked_sample es ev of Some s \<Rightarrow> [corrected_pressure_pa s] | None \<Rightarrow> [])
      else [])"
| "envelope_contribution (os, Call_get_snapshot out) = []"
| "envelope_contribution (os, Call_capture_zero_offsets) = []"
| "envelope_contribution (os, Call_begin_calibration) = []"

text \<open>
  The same with the elapsed time stated on its own: a call is tagged with the number of
  ticks \<open>dt\<close> that have passed since the start tick \<open>T\<close>.  An update lies inside the
  window when the tick counter it reads is \<open>T + dt\<close> (the counter wraps) and
  \<open>dt\<close> ticks of \<open>period\<close> milliseconds each are less than 10000 ms.
\<close>

definition elapsed_inside ::
  "TickType_t \<Rightarrow> TickType_t \<Rightarrow> nat \<times> rtos_t \<times> 'f service_call \<Rightarrow> bool" where
  "elapsed_inside period T c =
     (case c of (dt, os, call) \<Rightarrow>
        (case call of
           Call_update fs fv es ev \<Rightarrow>
             xTaskGetTickCount os 0 = T + of_nat dt \<and> dt * unat period < 10000
         | Call_get_snapshot out \<Rightarrow> True
         | Call_capture_zero_offsets \<Rightarrow> True
         | Call_begin_calibration \<Rightarrow> False))"

section \<open>Concrete inputs\<close>

text \<open>
  An environment in which the mutex can be created, the lock is granted and every tick
  read of the call returns \<open>t\<close>; a channel that has just been initialised; a driver
  result with a given status.
\<close>

definition rtos_ok :: "TickType_t \<Rightarrow> rtos_t" where
  "rtos_ok t =
     \<lparr>xSemaphoreCreateMutex = Some 1, xSemaphoreTake = True, xTaskGetTickCount = (\<lambda>k. t)\<rparr>"

definition channel0 :: "(real, unit, unit) adp910_channel_t" where
  "channel0 =
     \<lparr>id' = ''sensor0'', port = (), sensor = (),
      diag = \<lparr>ok = 1, invalid_argument = 0, bus_error = 0, not_ready = 0, crc_mismatch = 0,
              other = 0, last_status = ADP910_STATUS_OK\<rparr>,
      ready = True, next_init_tick = 0,
      sample = \<lparr>corrected_pressure_pa = 0, temperature_c = 0\<rparr>,
      sample_valid = False, last_read_status = ADP910_STATUS_NOT_READY,
      read_error_streak = 0\<rparr>"

definition driver_says :: "adp910_status_t \<Rightarrow> (real, unit) adp910_driver_result" where
  "driver_says st =
     \<lparr>status_out = st, sensor_out = (),
      sample_out = \<lparr>corrected_pressure_pa = 0, temperature_c = 0\<rparr>\<rparr>"

text \<open>
  The channel as the sampling task constructs it (not ready, retry deadline 0), and the
  same channel after a successful initialisation at tick 5.
\<close>

definition channel_boot :: "(real, unit, unit) adp910_channel_t" where
  "channel_boot =
     \<lparr>id' = ''sensor0'', port = (), sensor = (),
      diag = \<lparr>ok = 0, invalid_argument = 0, bus_error = 0, not_ready = 0, crc_mismatch = 0,
              other = 0, last_status = ADP910_STATUS_OK\<rparr>,
      ready = False, next_init_tick = 0,
      sample = \<lparr>corrected_pressure_pa = 0, temperature_c = 0\<rparr>,
      sample_valid = False, last_read_status = ADP910_STATUS_NOT_READY,
      read_error_streak = 0\<rparr>"

definition channel_up :: "(real, unit, unit) adp910_channel_t" where
  "channel_up = adp910_channel_try_init 1000 (driver_says ADP910_STATUS_OK) 5 channel_boot"

text \<open>What an update reports of the calibration: state, progress and the active flag.\<close>

definition calibration_report ::
  "'f blower_metrics_service_context_t option \<Rightarrow>
   (blower_calibration_state_t \<times> uint8_t \<times> bool) option" where
  "calibration_report r =
     map_option (\<lambda>g. (calibration_state (snapshot g), calibration_progress_pct (snapshot g),
                       active (cal g))) r"

text \<open>
  Service states and calls: the service after its first initialisation; a sample with a
  given pressure; the state after one update with a fan sample of 5 Pa; the models the
  sampling task installs (the gains 2 and 3 stand for its two configuration macros); the
  published fan pressure and the fan offset after a run; cycles with a fan sample of
  2 Pa; a service that has just begun a calibration at tick 0; a window with 10 fan and
  25 envelope samples; a mixed list of calls.
\<close>

definition g_ready :: "real blower_metrics_service_context_t" where
  "g_ready = blower_metrics_service_initialize real_ops (rtos_ok 0) None (g_service_context real_ops)"

definition pa :: "real \<Rightarrow> real adp910_sample_t" where
  "pa x = \<lparr>corrected_pressure_pa = x, temperature_c = 21\<rparr>"

definition g_sampled :: "real blower_metrics_service_context_t" where
  "g_sampled =
     (case blower_metrics_service_update real_ops 1 (rtos_ok 1) (Some (pa 5)) True None False g_ready
      of Some g \<Rightarrow> g | None \<Rightarrow> g_ready)"

definition task_models :: "real blower_metrics_models_t" where
  "task_models =
     \<lparr>fan_speed_model = Some (blower_linear_fan_speed_model real_ops),
      fan_speed_model_context = Some \<lparr>pascal_to_speed_gain = 2\<rparr>,
      air_leakage_model = Some (blower_linear_air_leakage_model real_ops),
      air_leakage_model_context = Some \<lparr>leakage_gain = 3\<rparr>\<rparr>"

definition fan_pressure_after ::
  "(nat \<times> 'f blower_metrics_service_context_t) option \<Rightarrow> 'f option" where
  "fan_pressure_after r = map_option (\<lambda>(n, g). fan_pressure_pa (snapshot g)) r"

definition fan_offset_after ::
  "(nat \<times> 'f blower_metrics_service_context_t) option \<Rightarrow> 'f option" where
  "fan_offset_after r = map_option (\<lambda>(n, g). fan_pressure_offset_pa g) r"

definition fan_cycles :: "nat \<Rightarrow> (rtos_t \<times> real service_call) list" where
  "fan_cycles k = replicate k (rtos_ok 100, Call_update (Some (pa 2)) True None False)"

definition g_calibrating :: "real blower_metrics_service_context_t" where
  "g_calibrating = blower_metrics_service_begin_calibration real_ops (rtos_ok 0) g_ready"

definition window_cycles :: "(rtos_t \<times> real service_call) list" where
  "window_cycles =
     replicate 10 (rtos_ok 1000, Call_update (Some (pa 3)) True (Some (pa 2)) True) @
     replicate 15 (rtos_ok 2000, Call_update None False (Some (pa 2)) True)"

definition mixed_calls :: "(rtos_t \<times> real service_call) list" where
  "mixed_calls =
     [(rtos_ok 1, Call_update (Some (pa 5)) True None False),
      (rtos_ok 2, Call_capture_zero_offsets),
      (rtos_ok 3, Call_begin_calibration),
      (rtos_ok 4, Call_get_snapshot None),
      (rtos_ok 5, Call_capture_zero_offsets),
      (rtos_ok 6, Call_update None False None False)]"

section \<open>The sensor channel: forced re-initialisation\<close>

lemma read_bus_error_step:
  assumes "ready ch" and "status_out rd = ADP910_STATUS_BUS_ERROR"
  shows "next_init_tick (adp910_channel_read rd ch) = next_init_tick ch"
    and "read_error_streak ch = 0 \<Longrightarrow>
           ready (adp910_channel_read rd ch) \<and> read_error_streak (adp910_channel_read rd ch) = 1"
    and "read_error_streak ch = 1 \<Longrightarrow>
           ready (adp910_channel_read rd ch) \<and> read_error_streak (adp910_channel_read rd ch) = 2"
    and "read_error_streak ch = 2 \<Longrightarrow>
           \<not> ready (adp910_channel_read rd ch) \<and> read_error_streak (adp910_channel_read rd ch) = 0"
  using assms
  by (simp_all add: adp910_channel_read_def Let_def ADP910_READ_ERROR_STREAK_TO_REINIT_def
        word_le_nat_alt word_less_nat_alt)

lemma try_init_attempts:
  assumes "\<not> ready ch" and "\<not> now_tick < next_init_tick ch"
  shows "ready (adp910_channel_try_init backoff init now_tick ch) =
           (status_out init = ADP910_STATUS_OK)"
    and "last_status (diag (adp910_channel_try_init backoff init now_tick ch)) = status_out init"
  using assms
  by (simp_all add: adp910_channel_try_init_def Let_def adp910_diag_record_def
        split: adp910_status_t.splits)

lemma streak_step:
  fixes s :: uint8_t
  shows "(3 \<le> (if s < 255 then s + 1 else s)) = (\<not> s < 2)"
proof (cases "s < 255")
  case True
  then have n: "unat s < 255" by (simp add: word_less_nat_alt)
  then have "unat (s + 1) = unat s + 1" by (simp add: unat_word_ariths)
  then show ?thesis using True by (auto simp: word_le_nat_alt word_less_nat_alt)
next
  case False
  then have "unat s \<ge> 255" by (simp add: word_less_nat_alt)
  then show ?thesis using False by (auto simp: word_le_nat_alt word_less_nat_alt)
qed

lemma streak_small:
  fixes s :: uint8_t
  shows "s < 2 \<Longrightarrow> s < 255"
  by (simp add: word_less_nat_alt)

lemma read_bus_error_any_streak:
  assumes "ready ch" and "status_out rd = ADP910_STATUS_BUS_ERROR"
  shows "ready (adp910_channel_read rd ch) = (read_error_streak ch < 2)"
    and "read_error_streak (adp910_channel_read rd ch) =
           (if read_error_streak ch < 2 then read_error_streak ch + 1 else 0)"
    and "next_init_tick (adp910_channel_read rd ch) = next_init_tick ch"
proof -
  note lt = streak_small [of "read_error_streak ch"]
  show "ready (adp910_channel_read rd ch) = (read_error_streak ch < 2)"
    using assms streak_step [of "read_error_streak ch"]
    by (auto simp: adp910_channel_read_def Let_def ADP910_READ_ERROR_STREAK_TO_REINIT_def
          split: if_splits)
  show "read_error_streak (adp910_channel_read rd ch) =
           (if read_error_streak ch < 2 then read_error_streak ch + 1 else 0)"
    using assms streak_step [of "read_error_streak ch"] lt
    by (auto simp: adp910_channel_read_def Let_def ADP910_READ_ERROR_STREAK_TO_REINIT_def
          split: if_splits)
  show "next_init_tick (adp910_channel_read rd ch) = next_init_tick ch"
    using assms by (simp add: adp910_channel_read_def Let_def)
qed

lemma three_bus_errors_from_zero:
  assumes "ready ch" and "read_error_streak ch = 0"
      and "status_out r1 = ADP910_STATUS_BUS_ERROR"
      and "status_out r2 = ADP910_STATUS_BUS_ERROR"
      and "status_out r3 = ADP910_STATUS_BUS_ERROR"
  shows "let c1 = adp910_channel_read r1 ch;
             c2 = adp910_channel_read r2 c1;
             c3 = adp910_channel_read r3 c2
         in ready c1 \<and> read_error_streak c1 = 1 \<and>
            ready c2 \<and> read_error_streak c2 = 2 \<and>
            \<not> ready c3 \<and> read_error_streak c3 = 0 \<and>
            next_init_tick c3 = next_init_tick ch \<and>
            (\<forall>backoff init now_tick.
               \<not> now_tick < next_init_tick ch \<longrightarrow>
               ready (adp910_channel_try_init backoff init now_tick c3) =
                 (status_out init = ADP910_STATUS_OK) \<and>
               last_status (diag (adp910_channel_try_init backoff init now_tick c3)) =
                 status_out init)"
proof -
  define c1 where "c1 = adp910_channel_read r1 ch"
  define c2 where "c2 = adp910_channel_read r2 c1"
  define c3 where "c3 = adp910_channel_read r3 c2"
  have s1: "ready c1" "read_error_streak c1 = 1" "next_init_tick c1 = next_init_tick ch"
    using read_bus_error_step [OF assms(1) assms(3)] assms(2) by (simp_all add: c1_def)
  have s2: "ready c2" "read_error_streak c2 = 2" "next_init_tick c2 = next_init_tick ch"
    using read_bus_error_step [OF s1(1) assms(4)] s1 by (simp_all add: c2_def)
  have s3: "\<not> ready c3" "read_error_streak c3 = 0" "next_init_tick c3 = next_init_tick ch"
    using read_bus_error_step [OF s2(1) assms(5)] s2 by (simp_all add: c3_def)
  have "ready (adp910_channel_try_init backoff init now_tick c3) =
          (status_out init = ADP910_STATUS_OK) \<and>
        last_status (diag (adp910_channel_try_init backoff init now_tick c3)) = status_out init"
    if "\<not> now_tick < next_init_tick ch" for backoff :: TickType_t
      and init :: "('a, 'c) adp910_driver_result" and now_tick
    using try_init_attempts [of c3 now_tick] s3 that by simp
  then show ?thesis
    using s1 s2 s3 unfolding Let_def c1_def [symmetric] c2_def [symmetric] c3_def [symmetric]
    by blast
qed

lemma read_keeps_deadline:
  "next_init_tick (adp910_channel_read rd ch) = next_init_tick ch"
  by (simp add: adp910_channel_read_def Let_def)

lemma reads_keep_deadline:
  "next_init_tick (fold adp910_channel_read rds ch) = next_init_tick ch"
  by (induction rds arbitrary: ch) (simp_all add: read_keeps_deadline)

lemma reset_cycle_frame:
  "ready (adp910_channel_reset_cycle F ch) = ready ch"
  "next_init_tick (adp910_channel_reset_cycle F ch) = next_init_tick ch"
  "diag (adp910_channel_reset_cycle F ch) = diag ch"
  "read_error_streak (adp910_channel_reset_cycle F ch) = read_error_streak ch"
  by (simp_all add: adp910_channel_reset_cycle_def)

lemma try_init_before_deadline:
  "now_tick < next_init_tick ch \<Longrightarrow> adp910_channel_try_init backoff init now_tick ch = ch"
  by (simp add: adp910_channel_try_init_def)

lemma try_init_made_ready:
  assumes "\<not> ready ch0" and "ready (adp910_channel_try_init b0 i0 t0 ch0)"
  shows "\<not> t0 < next_init_tick ch0"
    and "next_init_tick (adp910_channel_try_init b0 i0 t0 ch0) = next_init_tick ch0"
    and "read_error_streak (adp910_channel_try_init b0 i0 t0 ch0) = 0"
  using assms
  by (auto simp: adp910_channel_try_init_def Let_def split: if_splits)

lemma deadline_passed_since_init:
  assumes "\<not> ready ch0" and "ready (adp910_channel_try_init b0 i0 t0 ch0)"
      and "t0 \<le> now_tick"
  shows "\<not> now_tick < next_init_tick (fold adp910_channel_read rds
                                        (adp910_channel_try_init b0 i0 t0 ch0))"
  using try_init_made_ready(1,2) [OF assms(1,2)] assms(3)
  by (simp add: reads_keep_deadline)

text \<open>
  Claim C2, as the code has it.  A read with a bus error never writes the retry deadline
  of a ready channel.  The channel stays ready, with its error streak raised by one, when
  the streak before the read is below 2; otherwise the streak reaches the threshold 3 and
  the channel becomes not ready with the streak back at 0.  So a ready channel whose
  streak is 0 stays ready through two reads with a bus error, with streak 1 and 2, and on
  the third becomes not ready with streak 0 and the retry deadline it had before the run.
  In the next cycle, after \<open>adp910_channel_reset_cycle\<close>, \<open>adp910_channel_try_init\<close> calls
  the driver at every tick that is not below that deadline in the source's unsigned
  comparison: the channel is ready afterwards exactly when the driver reports success.
  For a channel that an initialisation at tick \<open>t0\<close> made ready, whatever was read since,
  every tick from \<open>t0\<close> on that the counter reaches without wrapping is such a tick.
\<close>

theorem three_bus_errors_force_reinit:
  assumes "ready ch"
      and "status_out r1 = ADP910_STATUS_BUS_ERROR"
      and "status_out r2 = ADP910_STATUS_BUS_ERROR"
      and "status_out r3 = ADP910_STATUS_BUS_ERROR"
  shows "ready (adp910_channel_read r1 ch) = (read_error_streak ch < 2) \<and>
         read_error_streak (adp910_channel_read r1 ch) =
           (if read_error_streak ch < 2 then read_error_streak ch + 1 else 0) \<and>
         next_init_tick (adp910_channel_read r1 ch) = next_init_tick ch \<and>
         (read_error_streak ch = 0 \<longrightarrow>
            (let c1 = adp910_channel_read r1 ch;
                 c2 = adp910_channel_read r2 c1;
                 c3 = adp910_channel_read r3 c2
             in ready c1 \<and> read_error_streak c1 = 1 \<and>
                ready c2 \<and> read_error_streak c2 = 2 \<and>
                \<not> ready c3 \<and> read_error_streak c3 = 0 \<and>
                next_init_tick c3 = next_init_tick ch \<and>
                (\<forall>F backoff init now_tick.
                   \<not> now_tick < next_init_tick ch \<longrightarrow>
                   ready (adp910_channel_try_init backoff init now_tick
                            (adp910_channel_reset_cycle F c3)) =
                     (status_out init = ADP910_STATUS_OK) \<and>
                   last_status (diag (adp910_channel_try_init backoff init now_tick
                                        (adp910_channel_reset_cycle F c3))) =
                     status_out init))) \<and>
         (\<forall>ch0 b0 i0 t0 rds now_tick.
            \<not> ready ch0 \<and> ready (adp910_channel_try_init b0 i0 t0 ch0) \<and>
            ch = fold adp910_channel_read rds (adp910_channel_try_init b0 i0 t0 ch0) \<and>
            t0 \<le> now_tick \<longrightarrow>
            \<not> now_tick < next_init_tick ch)"
proof -
  have run: "let c1 = adp910_channel_read r1 ch;
                 c2 = adp910_channel_read r2 c1;
                 c3 = adp910_channel_read r3 c2
             in ready c1 \<and> read_error_streak c1 = 1 \<and>
                ready c2 \<and> read_error_streak c2 = 2 \<and>
                \<not> ready c3 \<and> read_error_streak c3 = 0 \<and>
                next_init_tick c3 = next_init_tick ch \<and>
                (\<forall>F backoff init now_tick.
                   \<not> now_tick < next_init_tick ch \<longrightarrow>
                   ready (adp910_channel_try_init backoff init now_tick
                            (adp910_channel_reset_cycle F c3)) =
                     (status_out init = ADP910_STATUS_OK) \<and>
                   last_status (diag (adp910_channel_try_init backoff init now_tick
                                        (adp910_channel_reset_cycle F c3))) =
                     status_out init)"
    if z: "read_error_streak ch = 0"
  proof -
    define c3 where "c3 = adp910_channel_read r3 (adp910_channel_read r2 (adp910_channel_read r1 ch))"
    note base = three_bus_errors_from_zero [OF assms(1) z assms(2) assms(3) assms(4),
        unfolded Let_def, folded c3_def]
    have s3: "\<not> ready c3" "next_init_tick c3 = next_init_tick ch"
      using base by simp_all
    have "ready (adp910_channel_try_init backoff init now_tick
                            (adp910_channel_reset_cycle F c3)) =
                     (status_out init = ADP910_STATUS_OK) \<and>
                   last_status (diag (adp910_channel_try_init backoff init now_tick
                                        (adp910_channel_reset_cycle F c3))) =
                     status_out init"
      if "\<not> now_tick < next_init_tick ch"
      for F :: "'a float_ops" and backoff :: TickType_t
        and init :: "('a, 'c) adp910_driver_result" and now_tick
      using try_init_attempts [of "adp910_channel_reset_cycle F c3" now_tick backoff init]
            s3 that
      by (simp add: reset_cycle_frame)
    then show ?thesis
      using base unfolding Let_def c3_def [symmetric] by blast
  qed
  have since: "\<not> now_tick < next_init_tick ch"
    if "\<not> ready ch0 \<and> ready (adp910_channel_try_init b0 i0 t0 ch0) \<and>
        ch = fold adp910_channel_read rds (adp910_channel_try_init b0 i0 t0 ch0) \<and>
        t0 \<le> now_tick"
    for ch0 :: "('a, 'b, 'c) adp910_channel_t" and b0 i0 t0 rds now_tick
    using that deadline_passed_since_init [of ch0 b0 i0 t0 now_tick rds] by blast
  show ?thesis
    using read_bus_error_any_streak [OF assms(1) assms(2)] run since
    by blast
qed

theorem three_bus_errors_force_reinit_witness:
  "let c3 = adp910_channel_read (driver_says ADP910_STATUS_BUS_ERROR)
              (adp910_channel_read (driver_says ADP910_STATUS_BUS_ERROR)
                (adp910_channel_read (driver_says ADP910_STATUS_BUS_ERROR) channel_up))
   in ready channel_up \<and> read_error_streak channel_up = 0 \<and>
      \<not> ready c3 \<and> read_error_streak c3 = 0 \<and> next_init_tick c3 = 0 \<and>
      ready (adp910_channel_try_init 1000 (driver_says ADP910_STATUS_OK) 8
               (adp910_channel_reset_cycle real_ops c3))"
proof -
  have a: "ready channel_up" "read_error_streak channel_up = 0"
    "status_out (driver_says ADP910_STATUS_BUS_ERROR) = ADP910_STATUS_BUS_ERROR"
    "next_init_tick channel_up = 0" "status_out (driver_says ADP910_STATUS_OK) = ADP910_STATUS_OK"
    "\<not> ready channel_boot"
    "channel_up = fold adp910_channel_read []
       (adp910_channel_try_init 1000 (driver_says ADP910_STATUS_OK) 5 channel_boot)"
    "(5 :: TickType_t) \<le> 8"
    by (simp_all add: channel_up_def channel_boot_def driver_says_def adp910_channel_try_init_def
          Let_def adp910_diag_record_def)
  note t = three_bus_errors_force_reinit [OF a(1) a(3) a(3) a(3)]
  have e: "\<not> (8 :: TickType_t) < next_init_tick channel_up"
    using t [THEN conjunct2, THEN conjunct2, THEN conjunct2, THEN conjunct2, rule_format,
             of channel_boot 1000 "driver_says ADP910_STATUS_OK" 5 "[]" 8]
          a(1) a(6) a(8) by (simp add: channel_up_def)
  show ?thesis
    using t [THEN conjunct2, THEN conjunct2, THEN conjunct2, THEN conjunct1] a e
    by (simp add: Let_def)
qed

text \<open>
  Against claim C2 as stated: a ready channel whose streak is 1, after one not-ready
  read, leaves READY on the second read with a bus error, not on the third.
\<close>

theorem residual_streak_counterexample:
  "ready (adp910_channel_read (driver_says ADP910_STATUS_NOT_READY) channel_up) \<and>
   read_error_streak (adp910_channel_read (driver_says ADP910_STATUS_NOT_READY) channel_up) = 1 \<and>
   ready (adp910_channel_read (driver_says ADP910_STATUS_BUS_ERROR)
            (adp910_channel_read (driver_says ADP910_STATUS_NOT_READY) channel_up)) \<and>
   \<not> ready (adp910_channel_read (driver_says ADP910_STATUS_BUS_ERROR)
              (adp910_channel_read (driver_says ADP910_STATUS_BUS_ERROR)
                 (adp910_channel_read (driver_says ADP910_STATUS_NOT_READY) channel_up)))"
  by code_simp

text \<open>
  Claim C3.  Through any number of consecutive reads of a ready channel whose outcome is
  neither a bus error nor not-ready (a CRC mismatch, an invalid argument, an
  unclassified status, or success) the channel stays ready, its retry deadline is
  unchanged and its error streak never grows; when none of the reads is a success the
  streak is exactly what it was.  Only bus-error and not-ready outcomes count.
\<close>

theorem protocol_faults_never_force_reinit:
  assumes "ready ch"
      and "\<forall>rd\<in>set rds. status_out rd \<noteq> ADP910_STATUS_BUS_ERROR \<and>
                         status_out rd \<noteq> ADP910_STATUS_NOT_READY"
  shows "ready (fold adp910_channel_read rds ch) \<and>
         read_error_streak (fold adp910_channel_read rds ch) \<le> read_error_streak ch \<and>
         next_init_tick (fold adp910_channel_read rds ch) = next_init_tick ch \<and>
         ((\<forall>rd\<in>set rds. status_out rd \<noteq> ADP910_STATUS_OK) \<longrightarrow>
            read_error_streak (fold adp910_channel_read rds ch) = read_error_streak ch)"
  using assms
proof (induction rds arbitrary: ch)
  case Nil
  then show ?case by simp
next
  case (Cons rd rds)
  have st: "status_out rd \<noteq> ADP910_STATUS_BUS_ERROR" "status_out rd \<noteq> ADP910_STATUS_NOT_READY"
    using Cons.prems(2) by simp_all
  have one: "ready (adp910_channel_read rd ch)"
      "read_error_streak (adp910_channel_read rd ch) \<le> read_error_streak ch"
      "next_init_tick (adp910_channel_read rd ch) = next_init_tick ch"
      "status_out rd \<noteq> ADP910_STATUS_OK \<Longrightarrow>
         read_error_streak (adp910_channel_read rd ch) = read_error_streak ch"
    using Cons.prems(1) st by (simp_all add: adp910_channel_read_def Let_def)
  have rest: "\<forall>rd\<in>set rds. status_out rd \<noteq> ADP910_STATUS_BUS_ERROR \<and>
                         status_out rd \<noteq> ADP910_STATUS_NOT_READY"
    using Cons.prems(2) by simp
  show ?case
    using Cons.IH [OF one(1) rest] one by (auto intro: order_trans)
qed

theorem protocol_faults_never_force_reinit_witness:
  "let rds = [driver_says ADP910_STATUS_CRC_MISMATCH, driver_says ADP910_STATUS_INVALID_ARGUMENT,
              driver_says (ADP910_STATUS_UNKNOWN 9), driver_says ADP910_STATUS_CRC_MISMATCH];
       c1 = adp910_channel_read (driver_says ADP910_STATUS_BUS_ERROR) channel0
   in ready c1 \<and> read_error_streak c1 = 1 \<and>
      ready (fold adp910_channel_read rds c1) \<and>
      read_error_streak (fold adp910_channel_read rds c1) = 1"
proof -
  define c1 where "c1 = adp910_channel_read (driver_says ADP910_STATUS_BUS_ERROR) channel0"
  have a: "ready c1" "read_error_streak c1 = 1"
    by (simp_all add: c1_def adp910_channel_read_def channel0_def driver_says_def Let_def
          ADP910_READ_ERROR_STREAK_TO_REINIT_def word_le_nat_alt word_less_nat_alt)
  have b: "\<forall>rd\<in>set [driver_says ADP910_STATUS_CRC_MISMATCH, driver_says ADP910_STATUS_INVALID_ARGUMENT,
              driver_says (ADP910_STATUS_UNKNOWN 9), driver_says ADP910_STATUS_CRC_MISMATCH].
            status_out rd \<noteq> ADP910_STATUS_BUS_ERROR \<and> status_out rd \<noteq> ADP910_STATUS_NOT_READY"
    by (simp add: driver_says_def)
  have c: "\<forall>rd\<in>set [driver_says ADP910_STATUS_CRC_MISMATCH, driver_says ADP910_STATUS_INVALID_ARGUMENT,
              driver_says (ADP910_STATUS_UNKNOWN 9), driver_says ADP910_STATUS_CRC_MISMATCH].
            status_out rd \<noteq> ADP910_STATUS_OK"
    by (simp add: driver_says_def)
  show ?thesis
    using protocol_faults_never_force_reinit [OF a(1) b] a c
    unfolding Let_def c1_def [symmetric] by simp
qed

section \<open>The metrics service: a zero capture with nothing to capture\<close>

text \<open>
  Claim C6.  When neither role has both a valid sample in the snapshot and a cached raw
  reading, \<open>blower_metrics_service_capture_zero_offsets\<close> returns \<open>false\<close> and the whole
  service state, so the sequence number, both offsets and the derived metrics, is what
  it was.
\<close>

theorem capture_without_sample_is_noop:
  assumes "\<not> (fan_sample_valid (snapshot g) \<and> has_last_fan_pressure_raw g)"
      and "\<not> (envelope_sample_valid (snapshot g) \<and> has_last_envelope_pressure_raw g)"
  shows "blower_metrics_service_capture_zero_offsets F os g = Some (False, g)"
  using assms by (auto simp: blower_metrics_service_capture_zero_offsets_def Let_def)

theorem capture_without_sample_is_noop_witness:
  "blower_metrics_service_capture_zero_offsets real_ops (rtos_ok 7)
     (blower_metrics_service_initialize real_ops (rtos_ok 0) None (g_service_context real_ops))
   = Some (False,
       blower_metrics_service_initialize real_ops (rtos_ok 0) None (g_service_context real_ops))"
  by (rule capture_without_sample_is_noop)
     (simp_all add: blower_metrics_service_initialize_def g_service_context_def rtos_ok_def
        snapshot_zero_def Let_def)

section \<open>The metrics service: calibration progress and finalisation\<close>

lemma recompute_and_stamp_Some:
  assumes "\<not> Option.is_none (fan_speed_model (models g))"
      and "\<not> Option.is_none (air_leakage_model (models g))"
  shows "\<exists>sp lk. recompute_and_stamp t g =
           Some (g\<lparr>snapshot := (snapshot g)
                   \<lparr>fan_speed_units := sp, estimated_air_leakage_units := lk,
                    update_sequence := update_sequence (snapshot g) + 1,
                    last_update_tick := t\<rparr>\<rparr>)"
  using assms
  by (auto simp: recompute_and_stamp_def Let_def Option.is_none_def split: option.splits)

lemma update_initialized:
  assumes "is_initialized g" and "\<not> Option.is_none (mutex g)" and "xSemaphoreTake os"
  shows "blower_metrics_service_update F p os fs fv es ev g =
           recompute_and_stamp (xTaskGetTickCount os (if active (cal g) then 1 else 0))
             (cal_block F p os fs fv es ev
               (update_envelope_role F es ev (update_fan_role F fs fv g)))"
  using assms
  by (simp add: blower_metrics_service_update_def Let_def update_fan_role_def update_envelope_role_def
        split: option.splits)

lemma progress_pct:
  assumes "E < CALIBRATION_DURATION_MS"
  shows "unat (ucast (let pct0 = (E * 100) div CALIBRATION_DURATION_MS
                      in if pct0 > 99 then 99 else pct0) :: uint8_t) =
         min 99 (unat E * 100 div 10000)"
proof -
  have e: "unat E < 10000"
    using assms by (simp add: CALIBRATION_DURATION_MS_def word_less_nat_alt)
  have m: "unat (E * 100) = unat E * 100"
    using e by (simp add: unat_word_ariths)
  have d: "unat ((E * 100) div CALIBRATION_DURATION_MS) = unat E * 100 div 10000"
    by (simp add: unat_div m CALIBRATION_DURATION_MS_def)
  have le: "unat E * 100 div 10000 \<le> 99"
    using e by simp
  have ng: "\<not> (E * 100) div CALIBRATION_DURATION_MS > 99"
    using le d by (simp add: word_less_nat_alt)
  show ?thesis
    using ng d le by (simp add: Let_def unsigned_ucast_eq take_bit_nat_eq_self)
qed


lemma update_fan_role_frame [simp]:
  "is_initialized (update_fan_role F fs fv g) = is_initialized g"
  "mutex (update_fan_role F fs fv g) = mutex g"
  "models (update_fan_role F fs fv g) = models g"
  "cal (update_fan_role F fs fv g) = cal g"
  "fan_pressure_offset_pa (update_fan_role F fs fv g) = fan_pressure_offset_pa g"
  "envelope_pressure_offset_pa (update_fan_role F fs fv g) = envelope_pressure_offset_pa g"
  "last_envelope_pressure_raw_pa (update_fan_role F fs fv g) = last_envelope_pressure_raw_pa g"
  "update_sequence (snapshot (update_fan_role F fs fv g)) = update_sequence (snapshot g)"
  "envelope_pressure_pa (snapshot (update_fan_role F fs fv g)) = envelope_pressure_pa (snapshot g)"
  by (simp_all add: update_fan_role_def split: option.splits)

lemma update_envelope_role_frame [simp]:
  "is_initialized (update_envelope_role F es ev g) = is_initialized g"
  "mutex (update_envelope_role F es ev g) = mutex g"
  "models (update_envelope_role F es ev g) = models g"
  "cal (update_envelope_role F es ev g) = cal g"
  "fan_pressure_offset_pa (update_envelope_role F es ev g) = fan_pressure_offset_pa g"
  "envelope_pressure_offset_pa (update_envelope_role F es ev g) = envelope_pressure_offset_pa g"
  "last_fan_pressure_raw_pa (update_envelope_role F es ev g) = last_fan_pressure_raw_pa g"
  "update_sequence (snapshot (update_envelope_role F es ev g)) = update_sequence (snapshot g)"
  "fan_pressure_pa (snapshot (update_envelope_role F es ev g)) = fan_pressure_pa (snapshot g)"
  by (simp_all add: update_envelope_role_def split: option.splits)

lemma update_role_raw [simp]:
  "last_fan_pressure_raw_pa (update_fan_role F fs fv g) =
     (case checked_sample fs fv of Some s \<Rightarrow> corrected_pressure_pa s
      | None \<Rightarrow> last_fan_pressure_raw_pa g)"
  "last_envelope_pressure_raw_pa (update_envelope_role F es ev g) =
     (case checked_sample es ev of Some s \<Rightarrow> corrected_pressure_pa s
      | None \<Rightarrow> last_envelope_pressure_raw_pa g)"
  by (simp_all add: update_fan_role_def update_envelope_role_def split: option.splits)

lemma cal_accumulate_frame [simp]:
  "active (cal_accumulate F fs fv es ev c) = active c"
  "start_tick (cal_accumulate F fs fv es ev c) = start_tick c"
  by (simp_all add: cal_accumulate_def Let_def split: option.splits)

lemma cal_block_frame [simp]:
  "is_initialized (cal_block F p os fs fv es ev g) = is_initialized g"
  "mutex (cal_block F p os fs fv es ev g) = mutex g"
  "models (cal_block F p os fs fv es ev g) = models g"
  "update_sequence (snapshot (cal_block F p os fs fv es ev g)) = update_sequence (snapshot g)"
  "last_fan_pressure_raw_pa (cal_block F p os fs fv es ev g) = last_fan_pressure_raw_pa g"
  "last_envelope_pressure_raw_pa (cal_block F p os fs fv es ev g) = last_envelope_pressure_raw_pa g"
  by (simp_all add: cal_block_def cal_report_progress_def cal_finalize_def Let_def)

lemma cal_block_inactive [simp]:
  "\<not> active (cal g) \<Longrightarrow> cal_block F p os fs fv es ev g = g"
  by (simp add: cal_block_def)

lemma cal_block_sampling:
  assumes "active (cal g)"
      and "cal_elapsed_ms p (xTaskGetTickCount os 0) (start_tick (cal g)) < CALIBRATION_DURATION_MS"
  shows "cal (cal_block F p os fs fv es ev g) = cal_accumulate F fs fv es ev (cal g)"
    and "calibration_state (snapshot (cal_block F p os fs fv es ev g)) = BLOWER_CAL_SAMPLING"
    and "calibration_progress_pct (snapshot (cal_block F p os fs fv es ev g)) =
           ucast (let pct0 = (cal_elapsed_ms p (xTaskGetTickCount os 0) (start_tick (cal g)) * 100)
                               div CALIBRATION_DURATION_MS
                  in if pct0 > 99 then 99 else pct0)"
    and "fan_pressure_offset_pa (cal_block F p os fs fv es ev g) = fan_pressure_offset_pa g"
    and "envelope_pressure_offset_pa (cal_block F p os fs fv es ev g) = envelope_pressure_offset_pa g"
    and "fan_pressure_pa (snapshot (cal_block F p os fs fv es ev g)) = fan_pressure_pa (snapshot g)"
    and "envelope_pressure_pa (snapshot (cal_block F p os fs fv es ev g)) =
           envelope_pressure_pa (snapshot g)"
  using assms by (simp_all add: cal_block_def cal_report_progress_def Let_def)

lemma cal_block_finalizing:
  assumes "active (cal g)"
      and "\<not> cal_elapsed_ms p (xTaskGetTickCount os 0) (start_tick (cal g)) < CALIBRATION_DURATION_MS"
  shows "cal (cal_block F p os fs fv es ev g) =
           (cal_accumulate F fs fv es ev (cal g))\<lparr>active := False\<rparr>"
    and "calibration_state (snapshot (cal_block F p os fs fv es ev g)) = BLOWER_CAL_DONE"
    and "calibration_progress_pct (snapshot (cal_block F p os fs fv es ev g)) = 100"
    and "fan_pressure_offset_pa (cal_block F p os fs fv es ev g) =
           (if CALIBRATION_MIN_SAMPLES \<le> fan_count (cal_accumulate F fs fv es ev (cal g))
            then f_div F (fan_sum (cal_accumulate F fs fv es ev (cal g)))
                   (f_of_uint32 F (fan_count (cal_accumulate F fs fv es ev (cal g))))
            else fan_pressure_offset_pa g)"
    and "envelope_pressure_offset_pa (cal_block F p os fs fv es ev g) =
           (if CALIBRATION_MIN_SAMPLES \<le> envelope_count (cal_accumulate F fs fv es ev (cal g))
            then f_div F (envelope_sum (cal_accumulate F fs fv es ev (cal g)))
                   (f_of_uint32 F (envelope_count (cal_accumulate F fs fv es ev (cal g))))
            else envelope_pressure_offset_pa g)"
    and "fan_pressure_pa (snapshot (cal_block F p os fs fv es ev g)) =
           (if CALIBRATION_MIN_SAMPLES \<le> fan_count (cal_accumulate F fs fv es ev (cal g))
            then f_sub F (last_fan_pressure_raw_pa g)
                   (fan_pressure_offset_pa (cal_block F p os fs fv es ev g))
            else fan_pressure_pa (snapshot g))"
    and "envelope_pressure_pa (snapshot (cal_block F p os fs fv es ev g)) =
           (if CALIBRATION_MIN_SAMPLES \<le> envelope_count (cal_accumulate F fs fv es ev (cal g))
            then f_sub F (last_envelope_pressure_raw_pa g)
                   (envelope_pressure_offset_pa (cal_block F p os fs fv es ev g))
            else envelope_pressure_pa (snapshot g))"
  using assms by (simp_all add: cal_block_def cal_finalize_def Let_def)



lemma update_sampling_step:
  assumes w: "window_open T g" and t: "xSemaphoreTake os"
      and e: "cal_elapsed_ms p (xTaskGetTickCount os 0) T < CALIBRATION_DURATION_MS"
  shows "\<exists>g'. blower_metrics_service_update F p os fs fv es ev g = Some g' \<and>
           window_open T g' \<and>
           cal g' = cal_accumulate F fs fv es ev (cal g) \<and>
           calibration_state (snapshot g') = BLOWER_CAL_SAMPLING \<and>
           unat (calibration_progress_pct (snapshot g')) =
             min 99 (unat (cal_elapsed_ms p (xTaskGetTickCount os 0) T) * 100 div 10000) \<and>
           fan_pressure_offset_pa g' = fan_pressure_offset_pa g \<and>
           envelope_pressure_offset_pa g' = envelope_pressure_offset_pa g"
proof -
  define g2 where "g2 = update_envelope_role F es ev (update_fan_role F fs fv g)"
  define g3 where "g3 = cal_block F p os fs fv es ev g2"
  have a2: "active (cal g2)" "start_tick (cal g2) = T" "cal g2 = cal g"
    using w by (simp_all add: g2_def window_open_def)
  have e2: "cal_elapsed_ms p (xTaskGetTickCount os 0) (start_tick (cal g2)) < CALIBRATION_DURATION_MS"
    using e a2 by simp
  note blk = cal_block_sampling [OF a2(1) e2, of F fs fv es ev, folded g3_def]
  have m3: "\<not> Option.is_none (fan_speed_model (models g3))"
           "\<not> Option.is_none (air_leakage_model (models g3))"
    using w by (simp_all add: g3_def g2_def window_open_def)
  obtain sp lk where r: "recompute_and_stamp (xTaskGetTickCount os 1) g3 =
      Some (g3\<lparr>snapshot := (snapshot g3)
               \<lparr>fan_speed_units := sp, estimated_air_leakage_units := lk,
                update_sequence := update_sequence (snapshot g3) + 1,
                last_update_tick := xTaskGetTickCount os 1\<rparr>\<rparr>)"
    using recompute_and_stamp_Some [OF m3] by blast
  have u: "blower_metrics_service_update F p os fs fv es ev g =
      Some (g3\<lparr>snapshot := (snapshot g3)
               \<lparr>fan_speed_units := sp, estimated_air_leakage_units := lk,
                update_sequence := update_sequence (snapshot g3) + 1,
                last_update_tick := xTaskGetTickCount os 1\<rparr>\<rparr>)"
    using w t r by (simp add: update_initialized window_open_def g3_def g2_def)
  have pct: "unat (calibration_progress_pct (snapshot g3)) =
             min 99 (unat (cal_elapsed_ms p (xTaskGetTickCount os 0) T) * 100 div 10000)"
    using progress_pct [OF e] blk(3) a2(2) by simp
  have fr3: "is_initialized g3 = is_initialized g" "mutex g3 = mutex g" "models g3 = models g"
    by (simp_all add: g3_def g2_def)
  have off: "fan_pressure_offset_pa g3 = fan_pressure_offset_pa g"
            "envelope_pressure_offset_pa g3 = envelope_pressure_offset_pa g"
    using blk(4,5) by (simp_all add: g2_def)
  show ?thesis
    unfolding u using w blk(1,2) pct fr3 off a2
    by (simp add: window_open_def)
qed

lemma update_finalizing_step:
  assumes w: "window_open T g" and t: "xSemaphoreTake os"
      and e: "\<not> cal_elapsed_ms p (xTaskGetTickCount os 0) T < CALIBRATION_DURATION_MS"
  shows "\<exists>g'. blower_metrics_service_update F p os fs fv es ev g = Some g' \<and>
           cal g' = (cal_accumulate F fs fv es ev (cal g))\<lparr>active := False\<rparr> \<and>
           calibration_state (snapshot g') = BLOWER_CAL_DONE \<and>
           calibration_progress_pct (snapshot g') = 100 \<and>
           fan_pressure_offset_pa g' =
             (if CALIBRATION_MIN_SAMPLES \<le> fan_count (cal_accumulate F fs fv es ev (cal g))
              then f_div F (fan_sum (cal_accumulate F fs fv es ev (cal g)))
                     (f_of_uint32 F (fan_count (cal_accumulate F fs fv es ev (cal g))))
              else fan_pressure_offset_pa g) \<and>
           envelope_pressure_offset_pa g' =
             (if CALIBRATION_MIN_SAMPLES \<le> envelope_count (cal_accumulate F fs fv es ev (cal g))
              then f_div F (envelope_sum (cal_accumulate F fs fv es ev (cal g)))
                     (f_of_uint32 F (envelope_count (cal_accumulate F fs fv es ev (cal g))))
              else envelope_pressure_offset_pa g) \<and>
           (CALIBRATION_MIN_SAMPLES \<le> fan_count (cal_accumulate F fs fv es ev (cal g)) \<longrightarrow>
              fan_pressure_pa (snapshot g') =
                f_sub F (last_fan_pressure_raw_pa g') (fan_pressure_offset_pa g')) \<and>
           (CALIBRATION_MIN_SAMPLES \<le> envelope_count (cal_accumulate F fs fv es ev (cal g)) \<longrightarrow>
              envelope_pressure_pa (snapshot g') =
                f_sub F (last_envelope_pressure_raw_pa g') (envelope_pressure_offset_pa g'))"
proof -
  define g2 where "g2 = update_envelope_role F es ev (update_fan_role F fs fv g)"
  define g3 where "g3 = cal_block F p os fs fv es ev g2"
  have a2: "active (cal g2)" "start_tick (cal g2) = T" "cal g2 = cal g"
    using w by (simp_all add: g2_def window_open_def)
  have e2: "\<not> cal_elapsed_ms p (xTaskGetTickCount os 0) (start_tick (cal g2)) < CALIBRATION_DURATION_MS"
    using e a2 by simp
  note blk = cal_block_finalizing [OF a2(1) e2, of F fs fv es ev, folded g3_def]
  have m3: "\<not> Option.is_none (fan_speed_model (models g3))"
           "\<not> Option.is_none (air_leakage_model (models g3))"
    using w by (simp_all add: g3_def g2_def window_open_def)
  obtain sp lk where r: "recompute_and_stamp (xTaskGetTickCount os 1) g3 =
      Some (g3\<lparr>snapshot := (snapshot g3)
               \<lparr>fan_speed_units := sp, estimated_air_leakage_units := lk,
                update_sequence := update_sequence (snapshot g3) + 1,
                last_update_tick := xTaskGetTickCount os 1\<rparr>\<rparr>)"
    using recompute_and_stamp_Some [OF m3] by blast
  have u: "blower_metrics_service_update F p os fs fv es ev g =
      Some (g3\<lparr>snapshot := (snapshot g3)
               \<lparr>fan_speed_units := sp, estimated_air_leakage_units := lk,
                update_sequence := update_sequence (snapshot g3) + 1,
                last_update_tick := xTaskGetTickCount os 1\<rparr>\<rparr>)"
    using w t r by (simp add: update_initialized window_open_def g3_def g2_def)
  have off2: "fan_pressure_offset_pa g2 = fan_pressure_offset_pa g"
             "envelope_pressure_offset_pa g2 = envelope_pressure_offset_pa g"
    by (simp_all add: g2_def)
  have raw3: "last_fan_pressure_raw_pa g3 = last_fan_pressure_raw_pa g2"
             "last_envelope_pressure_raw_pa g3 = last_envelope_pressure_raw_pa g2"
    by (simp_all add: g3_def)
  show ?thesis
    unfolding u using blk a2(3) off2 raw3
    by simp
qed


lemma cal_accumulate_contribution:
  assumes "xSemaphoreTake os"
  shows "fan_sum (cal_accumulate F fs fv es ev c) =
           foldl (f_add F) (fan_sum c) (fan_contribution (os, Call_update fs fv es ev))"
    and "fan_count (cal_accumulate F fs fv es ev c) =
           fan_count c + of_nat (length (fan_contribution (os, Call_update fs fv es ev)))"
    and "envelope_sum (cal_accumulate F fs fv es ev c) =
           foldl (f_add F) (envelope_sum c) (envelope_contribution (os, Call_update fs fv es ev))"
    and "envelope_count (cal_accumulate F fs fv es ev c) =
           envelope_count c + of_nat (length (envelope_contribution (os, Call_update fs fv es ev)))"
  using assms by (simp_all add: cal_accumulate_def Let_def split: option.splits)

lemma capture_frame:
  assumes "\<not> Option.is_none (fan_speed_model (models g))"
      and "\<not> Option.is_none (air_leakage_model (models g))"
  shows "\<exists>b g'. blower_metrics_service_capture_zero_offsets F os g = Some (b, g') \<and>
           is_initialized g' = is_initialized g \<and> mutex g' = mutex g \<and>
           models g' = models g \<and> cal g' = cal g \<and>
           update_sequence (snapshot g') =
             update_sequence (snapshot g) + (if b then 1 else 0)"
  using assms
  by (auto simp: blower_metrics_service_capture_zero_offsets_def recompute_and_stamp_def
        Let_def Option.is_none_def split: option.splits)

lemma capture_window:
  assumes "window_open T g"
  shows "\<exists>b g'. blower_metrics_service_capture_zero_offsets F os g = Some (b, g') \<and>
           window_open T g' \<and> cal g' = cal g"
proof -
  have m: "\<not> Option.is_none (fan_speed_model (models g))"
          "\<not> Option.is_none (air_leakage_model (models g))"
    using assms by (simp_all add: window_open_def)
  obtain b g' where "blower_metrics_service_capture_zero_offsets F os g = Some (b, g')"
      "is_initialized g' = is_initialized g" "mutex g' = mutex g"
      "models g' = models g" "cal g' = cal g"
    using capture_frame [OF m, of F os] by blast
  then show ?thesis using assms by (simp add: window_open_def)
qed

lemma window_step:
  assumes w: "window_open T g" and i: "in_window p T c"
  shows "\<exists>b g'. service_step F p c g = Some (b, g') \<and> window_open T g' \<and>
           fan_sum (cal g') = foldl (f_add F) (fan_sum (cal g)) (fan_contribution c) \<and>
           fan_count (cal g') = fan_count (cal g) + of_nat (length (fan_contribution c)) \<and>
           envelope_sum (cal g') =
             foldl (f_add F) (envelope_sum (cal g)) (envelope_contribution c) \<and>
           envelope_count (cal g') =
             envelope_count (cal g) + of_nat (length (envelope_contribution c))"
proof (cases c)
  case (Pair os call)
  show ?thesis
  proof (cases call)
    case (Call_update fs fv es ev)
    show ?thesis
    proof (cases "xSemaphoreTake os")
      case True
      have e: "cal_elapsed_ms p (xTaskGetTickCount os 0) T < CALIBRATION_DURATION_MS"
        using i Pair Call_update by (simp add: in_window_def)
      obtain g' where g': "blower_metrics_service_update F p os fs fv es ev g = Some g'"
          "window_open T g'" "cal g' = cal_accumulate F fs fv es ev (cal g)"
        using update_sampling_step [OF w True e] by blast
      show ?thesis
        using g' Pair Call_update cal_accumulate_contribution [OF True, of F fs fv es ev "cal g"]
        by simp
    next
      case False
      have "blower_metrics_service_update F p os fs fv es ev g = Some g"
        using w False by (simp add: blower_metrics_service_update_def window_open_def)
      then show ?thesis using w False Pair Call_update by simp
    qed
  next
    case (Call_get_snapshot out)
    then show ?thesis using w Pair by auto
  next
    case Call_capture_zero_offsets
    then show ?thesis using capture_window [OF w, of F os] Pair by auto
  next
    case Call_begin_calibration
    then show ?thesis using i Pair by (simp add: in_window_def)
  qed
qed

lemma window_run:
  assumes "window_open T g" and "\<forall>c\<in>set cs. in_window p T c"
  shows "\<exists>n g'. service_run F p cs g = Some (n, g') \<and> window_open T g' \<and>
           fan_sum (cal g') =
             foldl (f_add F) (fan_sum (cal g)) (concat (map fan_contribution cs)) \<and>
           fan_count (cal g') =
             fan_count (cal g) + of_nat (length (concat (map fan_contribution cs))) \<and>
           envelope_sum (cal g') =
             foldl (f_add F) (envelope_sum (cal g)) (concat (map envelope_contribution cs)) \<and>
           envelope_count (cal g') =
             envelope_count (cal g) + of_nat (length (concat (map envelope_contribution cs)))"
  using assms
proof (induction cs arbitrary: g)
  case Nil
  then show ?case by simp
next
  case (Cons c cs)
  have i: "in_window p T c" and rest: "\<forall>c\<in>set cs. in_window p T c"
    using Cons.prems(2) by simp_all
  obtain b g1 where s: "service_step F p c g = Some (b, g1)" "window_open T g1"
      "fan_sum (cal g1) = foldl (f_add F) (fan_sum (cal g)) (fan_contribution c)"
      "fan_count (cal g1) = fan_count (cal g) + of_nat (length (fan_contribution c))"
      "envelope_sum (cal g1) = foldl (f_add F) (envelope_sum (cal g)) (envelope_contribution c)"
      "envelope_count (cal g1) =
         envelope_count (cal g) + of_nat (length (envelope_contribution c))"
    using window_step [OF Cons.prems(1) i] by blast
  obtain n g' where r: "service_run F p cs g1 = Some (n, g')" "window_open T g'"
      "fan_sum (cal g') =
         foldl (f_add F) (fan_sum (cal g1)) (concat (map fan_contribution cs))"
      "fan_count (cal g') =
         fan_count (cal g1) + of_nat (length (concat (map fan_contribution cs)))"
      "envelope_sum (cal g') =
         foldl (f_add F) (envelope_sum (cal g1)) (concat (map envelope_contribution cs))"
      "envelope_count (cal g') =
         envelope_count (cal g1) + of_nat (length (concat (map envelope_contribution cs)))"
    using Cons.IH [OF s(2) rest] by blast
  show ?case using s r by simp
qed

lemma begin_calibration_opens:
  assumes "is_initialized g" and "\<not> Option.is_none (mutex g)"
      and "\<not> Option.is_none (fan_speed_model (models g))"
      and "\<not> Option.is_none (air_leakage_model (models g))"
      and "xSemaphoreTake os"
  shows "window_open (xTaskGetTickCount os 0) (blower_metrics_service_begin_calibration F os g)"
    and "fan_sum (cal (blower_metrics_service_begin_calibration F os g)) = f_zero F"
    and "envelope_sum (cal (blower_metrics_service_begin_calibration F os g)) = f_zero F"
    and "fan_count (cal (blower_metrics_service_begin_calibration F os g)) = 0"
    and "envelope_count (cal (blower_metrics_service_begin_calibration F os g)) = 0"
    and "calibration_state (snapshot (blower_metrics_service_begin_calibration F os g)) =
           BLOWER_CAL_SAMPLING"
    and "calibration_progress_pct (snapshot (blower_metrics_service_begin_calibration F os g)) = 0"
  using assms by (simp_all add: blower_metrics_service_begin_calibration_def window_open_def)

text \<open>
  The update that follows \<open>begin_calibration\<close> and any calls inside the window, in terms
  of the elapsed milliseconds the update itself computes.
\<close>

lemma window_progress_computed:
  assumes "is_initialized g0" and "\<not> Option.is_none (mutex g0)"
      and "\<not> Option.is_none (fan_speed_model (models g0))"
      and "\<not> Option.is_none (air_leakage_model (models g0))"
      and "xSemaphoreTake osb"
      and "\<forall>c\<in>set cs. in_window p (xTaskGetTickCount osb 0) c"
      and "xSemaphoreTake os"
  shows "\<exists>n g1 g2.
           service_run F p cs (blower_metrics_service_begin_calibration F osb g0) = Some (n, g1) \<and>
           blower_metrics_service_update F p os fs fv es ev g1 = Some g2 \<and>
           (let E = cal_elapsed_ms p (xTaskGetTickCount os 0) (xTaskGetTickCount osb 0)
            in if E < CALIBRATION_DURATION_MS
               then calibration_state (snapshot g2) = BLOWER_CAL_SAMPLING \<and>
                    unat (calibration_progress_pct (snapshot g2)) =
                      min 99 (unat E * 100 div 10000) \<and>
                    active (cal g2)
               else calibration_state (snapshot g2) = BLOWER_CAL_DONE \<and>
                    calibration_progress_pct (snapshot g2) = 100 \<and>
                    \<not> active (cal g2))"
proof -
  let ?T = "xTaskGetTickCount osb 0"
  have w0: "window_open ?T (blower_metrics_service_begin_calibration F osb g0)"
    using begin_calibration_opens(1) [OF assms(1-5)] .
  obtain n g1 where r: "service_run F p cs (blower_metrics_service_begin_calibration F osb g0) =
      Some (n, g1)" "window_open ?T g1"
    using window_run [OF w0 assms(6)] by blast
  show ?thesis
  proof (cases "cal_elapsed_ms p (xTaskGetTickCount os 0) ?T < CALIBRATION_DURATION_MS")
    case True
    obtain g2 where "blower_metrics_service_update F p os fs fv es ev g1 = Some g2"
       "window_open ?T g2" "calibration_state (snapshot g2) = BLOWER_CAL_SAMPLING"
       "unat (calibration_progress_pct (snapshot g2)) =
             min 99 (unat (cal_elapsed_ms p (xTaskGetTickCount os 0) ?T) * 100 div 10000)"
      using update_sampling_step [OF r(2) assms(7) True] by blast
    then show ?thesis using r(1) True by (simp add: Let_def window_open_def)
  next
    case False
    obtain g2 where "blower_metrics_service_update F p os fs fv es ev g1 = Some g2"
       "cal g2 = (cal_accumulate F fs fv es ev (cal g1))\<lparr>active := False\<rparr>"
       "calibration_state (snapshot g2) = BLOWER_CAL_DONE"
       "calibration_progress_pct (snapshot g2) = 100"
      using update_finalizing_step [OF r(2) assms(7) False] by blast
    then show ?thesis using r(1) False by (simp add: Let_def)
  qed
qed

lemma elapsed_ms_true:
  assumes "now_tick = T + of_nat dt" and "dt * unat p < 2 ^ 32"
  shows "unat (cal_elapsed_ms p now_tick T) = dt * unat p"
proof -
  have "(of_nat (dt * unat p) :: TickType_t) = of_nat dt * p"
    by simp
  moreover have "cal_elapsed_ms p now_tick T = of_nat dt * p"
    using assms(1) by (simp add: cal_elapsed_ms_def)
  moreover have "unat (of_nat (dt * unat p) :: TickType_t) = dt * unat p"
    using assms(2) by (subst unat_of_nat) simp
  ultimately show ?thesis by simp
qed

lemma elapsed_ms_below:
  assumes "now_tick = T + of_nat dt" and "dt * unat p < 2 ^ 32"
  shows "(cal_elapsed_ms p now_tick T < CALIBRATION_DURATION_MS) = (dt * unat p < 10000)"
  using elapsed_ms_true [OF assms]
  by (simp add: word_less_nat_alt CALIBRATION_DURATION_MS_def)

lemma elapsed_inside_in_window:
  assumes "elapsed_inside p T c"
  shows "in_window p T (snd c)"
proof (cases c)
  case (fields dt os call)
  show ?thesis
  proof (cases call)
    case (Call_update fs fv es ev)
    then have t: "xTaskGetTickCount os 0 = T + of_nat dt" and b: "dt * unat p < 10000"
      using assms fields by (simp_all add: elapsed_inside_def)
    have "dt * unat p < 2 ^ 32" using b by simp
    from elapsed_ms_below [OF t this] b show ?thesis
      using fields Call_update by (simp add: in_window_def)
  qed (use assms fields in \<open>simp_all add: elapsed_inside_def in_window_def\<close>)
qed

text \<open>
  Claim C4, as the code has it.  Take an initialised service, \<open>begin_calibration\<close> at
  tick \<open>T\<close> and then any calls inside the window.  The next update that takes the lock
  reads the tick counter \<open>dt\<close> ticks after \<open>T\<close>; the elapsed time is
  \<open>E = dt * portTICK_PERIOD_MS\<close> milliseconds, and it is below \<open>2^32\<close>.  When
  \<open>E < 10000\<close> the update sets the calibration state to Sampling and the progress to
  \<open>min 99 (E * 100 div 10000)\<close> and leaves the accumulator active; when \<open>E \<ge> 10000\<close> it
  sets the state to Done, the progress to 100 and deactivates the accumulator.
\<close>

theorem calibration_window_progress:
  assumes "is_initialized g0" and "\<not> Option.is_none (mutex g0)"
      and "\<not> Option.is_none (fan_speed_model (models g0))"
      and "\<not> Option.is_none (air_leakage_model (models g0))"
      and "xSemaphoreTake osb"
      and "\<forall>c\<in>set tcs. elapsed_inside p (xTaskGetTickCount osb 0) c"
      and "xSemaphoreTake os"
      and "xTaskGetTickCount os 0 = xTaskGetTickCount osb 0 + of_nat dt"
      and "dt * unat p < 2 ^ 32"
  shows "\<exists>n g1 g2.
           service_run F p (map snd tcs) (blower_metrics_service_begin_calibration F osb g0) =
             Some (n, g1) \<and>
           blower_metrics_service_update F p os fs fv es ev g1 = Some g2 \<and>
           (if dt * unat p < 10000
            then calibration_state (snapshot g2) = BLOWER_CAL_SAMPLING \<and>
                 unat (calibration_progress_pct (snapshot g2)) =
                   min 99 (dt * unat p * 100 div 10000) \<and>
                 active (cal g2)
            else calibration_state (snapshot g2) = BLOWER_CAL_DONE \<and>
                 calibration_progress_pct (snapshot g2) = 100 \<and>
                 \<not> active (cal g2))"
proof -
  have w: "\<forall>c\<in>set (map snd tcs). in_window p (xTaskGetTickCount osb 0) c"
    using assms(6) elapsed_inside_in_window by fastforce
  note e = elapsed_ms_true [OF assms(8) assms(9)]
  note b = elapsed_ms_below [OF assms(8) assms(9)]
  show ?thesis
    using window_progress_computed [OF assms(1-5) w assms(7), of F fs fv es ev]
    unfolding Let_def e b .
qed

text \<open>
  Claim C5.  Take an initialised service, \<open>begin_calibration\<close>, any calls inside the
  window, and then the update that finds the window over.  For each role on its own, with
  \<open>xs\<close> the pressures the role accumulated in the window (this update's sample
  included) and \<open>k\<close> their number as a 32-bit count: when \<open>k \<ge> 20\<close> the role's offset is
  the accumulated sum divided by \<open>k\<close> and its published pressure is the cached raw reading
  minus this new offset; otherwise the role's offset is what it was before the update.
\<close>

theorem calibration_finalization_per_role:
  assumes "is_initialized g0" and "\<not> Option.is_none (mutex g0)"
      and "\<not> Option.is_none (fan_speed_model (models g0))"
      and "\<not> Option.is_none (air_leakage_model (models g0))"
      and "xSemaphoreTake osb"
      and "\<forall>c\<in>set cs. in_window p (xTaskGetTickCount osb 0) c"
      and "xSemaphoreTake os"
      and "\<not> cal_elapsed_ms p (xTaskGetTickCount os 0) (xTaskGetTickCount osb 0)
             < CALIBRATION_DURATION_MS"
  shows "\<exists>n g1 g2.
           service_run F p cs (blower_metrics_service_begin_calibration F osb g0) = Some (n, g1) \<and>
           blower_metrics_service_update F p os fs fv es ev g1 = Some g2 \<and>
           (let xs = concat (map fan_contribution (cs @ [(os, Call_update fs fv es ev)]));
                k = (of_nat (length xs) :: uint32_t)
            in if CALIBRATION_MIN_SAMPLES \<le> k
               then fan_pressure_offset_pa g2 =
                      f_div F (foldl (f_add F) (f_zero F) xs) (f_of_uint32 F k) \<and>
                    fan_pressure_pa (snapshot g2) =
                      f_sub F (last_fan_pressure_raw_pa g2) (fan_pressure_offset_pa g2)
               else fan_pressure_offset_pa g2 = fan_pressure_offset_pa g1) \<and>
           (let ys = concat (map envelope_contribution (cs @ [(os, Call_update fs fv es ev)]));
                k = (of_nat (length ys) :: uint32_t)
            in if CALIBRATION_MIN_SAMPLES \<le> k
               then envelope_pressure_offset_pa g2 =
                      f_div F (foldl (f_add F) (f_zero F) ys) (f_of_uint32 F k) \<and>
                    envelope_pressure_pa (snapshot g2) =
                      f_sub F (last_envelope_pressure_raw_pa g2) (envelope_pressure_offset_pa g2)
               else envelope_pressure_offset_pa g2 = envelope_pressure_offset_pa g1)"
proof -
  let ?T = "xTaskGetTickCount osb 0"
  let ?b = "blower_metrics_service_begin_calibration F osb g0"
  note b = begin_calibration_opens [OF assms(1-5), of F]
  obtain n g1 where r: "service_run F p cs ?b = Some (n, g1)" "window_open ?T g1"
      "fan_sum (cal g1) = foldl (f_add F) (fan_sum (cal ?b)) (concat (map fan_contribution cs))"
      "fan_count (cal g1) = fan_count (cal ?b) + of_nat (length (concat (map fan_contribution cs)))"
      "envelope_sum (cal g1) =
         foldl (f_add F) (envelope_sum (cal ?b)) (concat (map envelope_contribution cs))"
      "envelope_count (cal g1) =
         envelope_count (cal ?b) + of_nat (length (concat (map envelope_contribution cs)))"
    using window_run [OF b(1) assms(6), of F] by blast
  let ?acc = "cal_accumulate F fs fv es ev (cal g1)"
  note acc = cal_accumulate_contribution [OF assms(7), of F fs fv es ev "cal g1"]
  have fs: "fan_sum ?acc = foldl (f_add F) (f_zero F)
              (concat (map fan_contribution (cs @ [(os, Call_update fs fv es ev)])))"
    using acc(1) r(3) b(2) by simp
  have fc: "fan_count ?acc =
              of_nat (length (concat (map fan_contribution (cs @ [(os, Call_update fs fv es ev)]))))"
    using acc(2) r(4) b(4) by simp
  have es: "envelope_sum ?acc = foldl (f_add F) (f_zero F)
              (concat (map envelope_contribution (cs @ [(os, Call_update fs fv es ev)])))"
    using acc(3) r(5) b(3) by simp
  have ec: "envelope_count ?acc =
              of_nat (length (concat (map envelope_contribution (cs @ [(os, Call_update fs fv es ev)]))))"
    using acc(4) r(6) b(5) by simp
  obtain g2 where g2: "blower_metrics_service_update F p os fs fv es ev g1 = Some g2"
      "fan_pressure_offset_pa g2 =
         (if CALIBRATION_MIN_SAMPLES \<le> fan_count ?acc
          then f_div F (fan_sum ?acc) (f_of_uint32 F (fan_count ?acc))
          else fan_pressure_offset_pa g1)"
      "envelope_pressure_offset_pa g2 =
         (if CALIBRATION_MIN_SAMPLES \<le> envelope_count ?acc
          then f_div F (envelope_sum ?acc) (f_of_uint32 F (envelope_count ?acc))
          else envelope_pressure_offset_pa g1)"
      "CALIBRATION_MIN_SAMPLES \<le> fan_count ?acc \<longrightarrow>
         fan_pressure_pa (snapshot g2) =
           f_sub F (last_fan_pressure_raw_pa g2) (fan_pressure_offset_pa g2)"
      "CALIBRATION_MIN_SAMPLES \<le> envelope_count ?acc \<longrightarrow>
         envelope_pressure_pa (snapshot g2) =
           f_sub F (last_envelope_pressure_raw_pa g2) (envelope_pressure_offset_pa g2)"
    using update_finalizing_step [OF r(2) assms(7) assms(8), of F fs fv es ev] by blast
  show ?thesis
    using r(1) g2 unfolding fs fc es ec Let_def
    by (intro exI [of _ n] exI [of _ g1] exI [of _ g2]) simp
qed

section \<open>The metrics service: the update sequence number\<close>

lemma recompute_and_stamp_frame:
  assumes "recompute_and_stamp t g = Some g'"
  shows "is_initialized g' = is_initialized g" and "mutex g' = mutex g"
    and "models g' = models g" and "cal g' = cal g"
    and "fan_pressure_offset_pa g' = fan_pressure_offset_pa g"
    and "envelope_pressure_offset_pa g' = envelope_pressure_offset_pa g"
    and "last_fan_pressure_raw_pa g' = last_fan_pressure_raw_pa g"
    and "last_envelope_pressure_raw_pa g' = last_envelope_pressure_raw_pa g"
    and "has_last_fan_pressure_raw g' = has_last_fan_pressure_raw g"
    and "has_last_envelope_pressure_raw g' = has_last_envelope_pressure_raw g"
    and "fan_pressure_pa (snapshot g') = fan_pressure_pa (snapshot g)"
    and "envelope_pressure_pa (snapshot g') = envelope_pressure_pa (snapshot g)"
    and "fan_temperature_c (snapshot g') = fan_temperature_c (snapshot g)"
    and "envelope_temperature_c (snapshot g') = envelope_temperature_c (snapshot g)"
    and "fan_sample_valid (snapshot g') = fan_sample_valid (snapshot g)"
    and "envelope_sample_valid (snapshot g') = envelope_sample_valid (snapshot g)"
    and "update_sequence (snapshot g') = update_sequence (snapshot g) + 1"
  using assms
  by (auto simp: recompute_and_stamp_def Let_def split: option.splits)

lemma update_wf_step:
  assumes "service_wf g"
  shows "\<exists>g'. blower_metrics_service_update F p os fs fv es ev g = Some g' \<and> service_wf g' \<and>
           update_sequence (snapshot g') =
             update_sequence (snapshot g) + (if update_commits F os g then 1 else 0)"
proof (cases "update_commits F os g")
  case False
  then show ?thesis using assms
    by (auto simp: blower_metrics_service_update_def update_commits_def Let_def service_wf_def
          blower_metrics_service_initialize_def blower_metrics_service_apply_default_models_def
          snapshot_zero_def split: if_splits)
next
  case True
  define g0 where
    "g0 = (if \<not> is_initialized g then blower_metrics_service_initialize F os None g else g)"
  have wf0: "is_initialized g0" "\<not> Option.is_none (mutex g0)" "xSemaphoreTake os"
    using True by (simp_all add: update_commits_def g0_def Let_def)
  have m0: "\<not> Option.is_none (fan_speed_model (models g0))"
           "\<not> Option.is_none (air_leakage_model (models g0))"
    using assms wf0
    by (auto simp: g0_def service_wf_def blower_metrics_service_initialize_def Let_def
          blower_metrics_service_apply_default_models_def split: if_splits)
  have s0: "update_sequence (snapshot g0) = update_sequence (snapshot g)"
    using assms wf0
    by (auto simp: g0_def service_wf_def blower_metrics_service_initialize_def Let_def
          snapshot_zero_def split: if_splits)
  define g3 where "g3 = cal_block F p os fs fv es ev
      (update_envelope_role F es ev (update_fan_role F fs fv g0))"
  have m3: "\<not> Option.is_none (fan_speed_model (models g3))"
           "\<not> Option.is_none (air_leakage_model (models g3))"
    using m0 by (simp_all add: g3_def)
  obtain g' where g': "recompute_and_stamp
      (xTaskGetTickCount os (if active (cal g0) then 1 else 0)) g3 = Some g'"
    using recompute_and_stamp_Some [OF m3] by blast
  note fr = recompute_and_stamp_frame [OF g']
  have "blower_metrics_service_update F p os fs fv es ev g0 = Some g'"
    using wf0 g' by (simp add: update_initialized g3_def)
  moreover have "blower_metrics_service_update F p os fs fv es ev g =
                 blower_metrics_service_update F p os fs fv es ev g0"
    using wf0 by (simp add: blower_metrics_service_update_def g0_def Let_def)
  moreover have "service_wf g'"
    using wf0 m3 fr by (simp add: service_wf_def g3_def)
  moreover have "update_sequence (snapshot g') = update_sequence (snapshot g) + 1"
    using fr s0 by (simp add: g3_def)
  ultimately show ?thesis using True by simp
qed

lemma capture_wf_step:
  assumes "service_wf g"
  shows "\<exists>b g'. blower_metrics_service_capture_zero_offsets F os g = Some (b, g') \<and>
           service_wf g' \<and>
           update_sequence (snapshot g') = update_sequence (snapshot g) + (if b then 1 else 0)"
proof (cases "is_initialized g")
  case False
  then show ?thesis using assms
    by (auto simp: blower_metrics_service_capture_zero_offsets_def)
next
  case True
  then have m: "\<not> Option.is_none (fan_speed_model (models g))"
               "\<not> Option.is_none (air_leakage_model (models g))"
    using assms by (simp_all add: service_wf_def)
  obtain b g' where c: "blower_metrics_service_capture_zero_offsets F os g = Some (b, g')"
      "is_initialized g' = is_initialized g" "mutex g' = mutex g" "models g' = models g"
      "update_sequence (snapshot g') = update_sequence (snapshot g) + (if b then 1 else 0)"
    using capture_frame [OF m, of F os] by blast
  have "service_wf g'" using assms True c by (simp add: service_wf_def)
  then show ?thesis using c by blast
qed

lemma begin_calibration_wf_step:
  assumes "service_wf g"
  shows "service_wf (blower_metrics_service_begin_calibration F os g)"
    and "update_sequence (snapshot (blower_metrics_service_begin_calibration F os g)) =
           update_sequence (snapshot g)"
  using assms by (simp_all add: blower_metrics_service_begin_calibration_def service_wf_def)

lemma service_step_wf:
  assumes "service_wf g"
  shows "\<exists>b g'. service_step F p c g = Some (b, g') \<and> service_wf g' \<and>
           update_sequence (snapshot g') = update_sequence (snapshot g) + (if b then 1 else 0)"
proof (cases c)
  case (Pair os call)
  show ?thesis
  proof (cases call)
    case (Call_update fs fv es ev)
    then show ?thesis using update_wf_step [OF assms, of F p os fs fv es ev] Pair by auto
  next
    case (Call_get_snapshot out)
    then show ?thesis using assms Pair by auto
  next
    case Call_capture_zero_offsets
    then show ?thesis using capture_wf_step [OF assms, of F os] Pair by simp
  next
    case Call_begin_calibration
    then show ?thesis using begin_calibration_wf_step [OF assms, of F os] Pair by auto
  qed
qed

lemma service_run_wf:
  assumes "service_wf g"
  shows "\<exists>n g'. service_run F p cs g = Some (n, g') \<and> service_wf g' \<and>
           update_sequence (snapshot g') = update_sequence (snapshot g) + of_nat n"
  using assms
proof (induction cs arbitrary: g)
  case Nil
  then show ?case by simp
next
  case (Cons c cs)
  obtain b g1 where s: "service_step F p c g = Some (b, g1)" "service_wf g1"
     "update_sequence (snapshot g1) = update_sequence (snapshot g) + (if b then 1 else 0)"
    using service_step_wf [OF Cons.prems] by blast
  obtain n g' where r: "service_run F p cs g1 = Some (n, g')" "service_wf g'"
     "update_sequence (snapshot g') = update_sequence (snapshot g1) + of_nat n"
    using Cons.IH [OF s(2)] by blast
  show ?case using s r by auto
qed

text \<open>
  Claim C1, as the code has it.  From every state the program can be in, any sequence of
  update, get_snapshot, capture_zero_offsets and begin_calibration calls runs without a
  fault, and afterwards \<open>update_sequence\<close> is its initial value plus \<open>N\<close> modulo \<open>2^32\<close>,
  where \<open>N\<close> counts the updates that took the lock and the zero captures that returned
  \<open>true\<close>.  \<open>begin_calibration\<close> leaves the sequence number as it is, and an
  initialisation that has a mutex sets it to 0.
\<close>

theorem update_sequence_counts_ingestions:
  assumes "service_wf g"
  shows "(\<exists>n g'. service_run F p cs g = Some (n, g') \<and>
            update_sequence (snapshot g') = update_sequence (snapshot g) + of_nat n) \<and>
         update_sequence (snapshot (blower_metrics_service_begin_calibration F os g)) =
           update_sequence (snapshot g) \<and>
         (\<not> Option.is_none (mutex g) \<or> \<not> Option.is_none (xSemaphoreCreateMutex os) \<longrightarrow>
            update_sequence (snapshot (blower_metrics_service_initialize F os m g)) = 0)"
proof -
  have "\<exists>n g'. service_run F p cs g = Some (n, g') \<and>
            update_sequence (snapshot g') = update_sequence (snapshot g) + of_nat n"
    using service_run_wf [OF assms, of F p cs] by blast
  moreover have "\<not> Option.is_none (mutex g) \<or> \<not> Option.is_none (xSemaphoreCreateMutex os) \<longrightarrow>
            update_sequence (snapshot (blower_metrics_service_initialize F os m g)) = 0"
    by (auto simp: blower_metrics_service_initialize_def Let_def snapshot_zero_def
          split: option.splits)
  ultimately show ?thesis
    using begin_calibration_wf_step(2) [OF assms] by blast
qed

section \<open>The metrics service: zero capture and snapshot\<close>

text \<open>
  Claim C7.  On an initialised service where at least one role has a valid sample and a
  cached raw reading, a zero capture that takes the lock returns \<open>true\<close>, and the snapshot
  read right after it reports, for every captured role, the published pressure
  \<open>f_zero\<close> (exactly \<open>0.0f\<close>; the role's offset is its cached raw reading), a fan speed
  that is the installed fan-speed model at the reported fan pressure, and a leakage that
  is the installed leakage model at that fan speed and the reported envelope pressure.
\<close>

theorem zero_capture_round_trip:
  assumes "is_initialized g" and "\<not> Option.is_none (mutex g)" and "xSemaphoreTake os"
      and "fan_speed_model (models g) = Some fm" and "air_leakage_model (models g) = Some lm"
      and "fan_sample_valid (snapshot g) \<and> has_last_fan_pressure_raw g \<or>
           envelope_sample_valid (snapshot g) \<and> has_last_envelope_pressure_raw g"
      and "xSemaphoreTake os'"
  shows "\<exists>g' snap.
           blower_metrics_service_capture_zero_offsets F os g = Some (True, g') \<and>
           blower_metrics_service_get_snapshot os' (Some buf) g' = (True, Some snap) \<and>
           (fan_sample_valid (snapshot g) \<and> has_last_fan_pressure_raw g \<longrightarrow>
              fan_pressure_pa snap = f_zero F \<and>
              fan_pressure_offset_pa g' = last_fan_pressure_raw_pa g) \<and>
           (envelope_sample_valid (snapshot g) \<and> has_last_envelope_pressure_raw g \<longrightarrow>
              envelope_pressure_pa snap = f_zero F \<and>
              envelope_pressure_offset_pa g' = last_envelope_pressure_raw_pa g) \<and>
           fan_speed_units snap = fm (fan_pressure_pa snap) (fan_speed_model_context (models g)) \<and>
           estimated_air_leakage_units snap =
             lm (fan_speed_units snap) (envelope_pressure_pa snap)
                (air_leakage_model_context (models g))"
  using assms
  by (auto simp: blower_metrics_service_capture_zero_offsets_def recompute_and_stamp_def
        blower_metrics_service_get_snapshot_def Let_def)

lemmas evals = service_run.simps service_step.simps blower_metrics_service_update_def
  update_commits_def blower_metrics_service_begin_calibration_def g_ready_def g_sampled_def
  blower_metrics_service_initialize_def g_service_context_def rtos_ok_def real_ops_def
  snapshot_zero_def cal_zero_def blower_metrics_service_apply_default_models_def
  update_fan_role_def update_envelope_role_def checked_sample_def cal_block_def
  cal_accumulate_def cal_report_progress_def cal_finalize_def cal_elapsed_ms_def
  recompute_and_stamp_def blower_linear_fan_speed_model_def blower_linear_air_leakage_model_def
  blower_absf_def CALIBRATION_DURATION_MS_def CALIBRATION_MIN_SAMPLES_def pa_def Let_def

theorem zero_capture_round_trip_witness:
  "\<exists>g' snap.
     blower_metrics_service_capture_zero_offsets real_ops (rtos_ok 7) g_sampled = Some (True, g') \<and>
     blower_metrics_service_get_snapshot (rtos_ok 8) (Some (snapshot_zero real_ops)) g' =
       (True, Some snap) \<and>
     fan_pressure_pa snap = 0 \<and> fan_pressure_offset_pa g' = 5 \<and>
     fan_speed_units snap = 0 \<and> estimated_air_leakage_units snap = 0"
proof -
  have a: "is_initialized g_sampled" "\<not> Option.is_none (mutex g_sampled)"
      "xSemaphoreTake (rtos_ok 7)" "xSemaphoreTake (rtos_ok 8)"
      "fan_speed_model (models g_sampled) = Some (blower_linear_fan_speed_model real_ops)"
      "air_leakage_model (models g_sampled) = Some (blower_linear_air_leakage_model real_ops)"
      "fan_sample_valid (snapshot g_sampled) \<and> has_last_fan_pressure_raw g_sampled"
      "last_fan_pressure_raw_pa g_sampled = 5"
      "fan_speed_model_context (models g_sampled) = None"
      "air_leakage_model_context (models g_sampled) = None"
    by (simp_all add: evals)
  have c: "fan_sample_valid (snapshot g_sampled) \<and> has_last_fan_pressure_raw g_sampled \<or>
           envelope_sample_valid (snapshot g_sampled) \<and> has_last_envelope_pressure_raw g_sampled"
    using a(7) by simp
  note inst = zero_capture_round_trip [OF a(1) a(2) a(3) a(5) a(6) c a(4),
        of real_ops "snapshot_zero real_ops"]
  then obtain g' snap where r:
      "blower_metrics_service_capture_zero_offsets real_ops (rtos_ok 7) g_sampled = Some (True, g')"
      "blower_metrics_service_get_snapshot (rtos_ok 8) (Some (snapshot_zero real_ops)) g' =
         (True, Some snap)"
      "fan_sample_valid (snapshot g_sampled) \<and> has_last_fan_pressure_raw g_sampled \<longrightarrow>
         fan_pressure_pa snap = f_zero real_ops \<and>
         fan_pressure_offset_pa g' = last_fan_pressure_raw_pa g_sampled"
      "fan_speed_units snap =
         blower_linear_fan_speed_model real_ops (fan_pressure_pa snap)
           (fan_speed_model_context (models g_sampled))"
      "estimated_air_leakage_units snap =
         blower_linear_air_leakage_model real_ops (fan_speed_units snap)
           (envelope_pressure_pa snap) (air_leakage_model_context (models g_sampled))"
    by blast
  have "fan_pressure_pa snap = 0" "fan_pressure_offset_pa g' = 5"
       "fan_speed_units snap = 0" "estimated_air_leakage_units snap = 0"
    using r(3-5) a(7-10)
    by (simp_all add: real_ops_def blower_linear_fan_speed_model_def
          blower_linear_air_leakage_model_def blower_absf_def)
  then show ?thesis using r(1,2) by blast
qed

section \<open>The metrics service: initialisation\<close>

lemma apply_default_models_eq [simp]:
  "blower_metrics_service_apply_default_models F m = default_models F"
  by (simp add: blower_metrics_service_apply_default_models_def default_models_def)

lemma initialize_without_mutex:
  assumes "Option.is_none (mutex g)" and "Option.is_none (xSemaphoreCreateMutex os)"
  shows "blower_metrics_service_initialize F os m g = g"
  using assms
  by (simp add: blower_metrics_service_initialize_def Let_def Option.is_none_def)

lemma initialize_with_mutex:
  assumes "\<not> (Option.is_none (mutex g) \<and> Option.is_none (xSemaphoreCreateMutex os))"
  shows "blower_metrics_service_initialize F os m g =
           \<lparr>mutex = (if Option.is_none (mutex g) then xSemaphoreCreateMutex os else mutex g),
            models = (case m of
                        None \<Rightarrow> default_models F
                      | Some mm \<Rightarrow>
                          if \<not> Option.is_none (fan_speed_model mm) \<and>
                             \<not> Option.is_none (air_leakage_model mm)
                          then mm else default_models F),
            snapshot = snapshot_zero F,
            fan_pressure_offset_pa = f_zero F, envelope_pressure_offset_pa = f_zero F,
            last_fan_pressure_raw_pa = f_zero F, last_envelope_pressure_raw_pa = f_zero F,
            has_last_fan_pressure_raw = False, has_last_envelope_pressure_raw = False,
            is_initialized = True, cal = cal_zero F\<rparr>"
  using assms
  by (cases g) (auto simp: blower_metrics_service_initialize_def Let_def split: option.splits)

text \<open>
  Claim C8, as the code has it.  An initialisation that cannot obtain a mutex leaves the
  state as it is.  Every other initialisation zeroes the snapshot, both offsets, the
  cached raw readings and the calibration accumulator, marks the service initialised,
  and installs a pipeline: the supplied models when both function pointers are set,
  otherwise the built-in linear defaults, which replace whatever was installed before.
  Calling it again with the same argument changes nothing more.
\<close>

theorem initialize_resets_and_installs:
  "let g' = blower_metrics_service_initialize F os m g
   in if Option.is_none (mutex g) \<and> Option.is_none (xSemaphoreCreateMutex os)
      then g' = g
      else snapshot g' = snapshot_zero F \<and>
           fan_pressure_offset_pa g' = f_zero F \<and> envelope_pressure_offset_pa g' = f_zero F \<and>
           last_fan_pressure_raw_pa g' = f_zero F \<and> last_envelope_pressure_raw_pa g' = f_zero F \<and>
           \<not> has_last_fan_pressure_raw g' \<and> \<not> has_last_envelope_pressure_raw g' \<and>
           cal g' = cal_zero F \<and> is_initialized g' \<and>
           models g' =
             (case m of
                None \<Rightarrow> default_models F
              | Some mm \<Rightarrow>
                  if \<not> Option.is_none (fan_speed_model mm) \<and>
                     \<not> Option.is_none (air_leakage_model mm)
                  then mm else default_models F) \<and>
           blower_metrics_service_initialize F os m g' = g'"
proof (cases "Option.is_none (mutex g) \<and> Option.is_none (xSemaphoreCreateMutex os)")
  case True
  then show ?thesis by (simp add: initialize_without_mutex)
next
  case False
  let ?g' = "blower_metrics_service_initialize F os m g"
  note e = initialize_with_mutex [OF False, of F m]
  have mx: "\<not> Option.is_none (mutex ?g')"
    using False by (auto simp: e)
  then have "\<not> (Option.is_none (mutex ?g') \<and> Option.is_none (xSemaphoreCreateMutex os))"
    by simp
  from initialize_with_mutex [OF this, of F m]
  have idem: "blower_metrics_service_initialize F os m ?g' = ?g'"
    using mx by (simp add: e)
  have body: "snapshot ?g' = snapshot_zero F \<and>
           fan_pressure_offset_pa ?g' = f_zero F \<and> envelope_pressure_offset_pa ?g' = f_zero F \<and>
           last_fan_pressure_raw_pa ?g' = f_zero F \<and> last_envelope_pressure_raw_pa ?g' = f_zero F \<and>
           \<not> has_last_fan_pressure_raw ?g' \<and> \<not> has_last_envelope_pressure_raw ?g' \<and>
           cal ?g' = cal_zero F \<and> is_initialized ?g' \<and>
           models ?g' =
             (case m of
                None \<Rightarrow> default_models F
              | Some mm \<Rightarrow>
                  if \<not> Option.is_none (fan_speed_model mm) \<and>
                     \<not> Option.is_none (air_leakage_model mm)
                  then mm else default_models F) \<and>
           blower_metrics_service_initialize F os m ?g' = ?g'"
    unfolding idem by (simp add: e)
  show ?thesis
    unfolding Let_def if_not_P [OF False] by (rule body)
qed

theorem initialize_resets_and_installs_witness:
  "models (blower_metrics_service_initialize real_ops (rtos_ok 1) None
            (blower_metrics_service_initialize real_ops (rtos_ok 0) (Some task_models)
               (g_service_context real_ops))) = default_models real_ops \<and>
   models (blower_metrics_service_initialize real_ops (rtos_ok 0) (Some task_models)
             (g_service_context real_ops)) = task_models"
  using initialize_resets_and_installs [of real_ops "rtos_ok 1" None
          "blower_metrics_service_initialize real_ops (rtos_ok 0) (Some task_models)
             (g_service_context real_ops)"]
        initialize_resets_and_installs [of real_ops "rtos_ok 0" "Some task_models"
          "g_service_context real_ops"]
  by (simp add: Let_def rtos_ok_def task_models_def Option.is_none_def)

text \<open>
  Against claim C8 as stated: after the task's models were installed, an initialisation
  without an argument leaves the default pipeline, whose fan-speed context is \<open>NULL\<close>.
\<close>

theorem initialize_replaces_models_counterexample:
  "fan_speed_model_context
     (models (blower_metrics_service_initialize real_ops (rtos_ok 0) (Some task_models)
                (g_service_context real_ops))) = Some \<lparr>pascal_to_speed_gain = 2\<rparr> \<and>
   fan_speed_model_context
     (models (blower_metrics_service_initialize real_ops (rtos_ok 1) None
                (blower_metrics_service_initialize real_ops (rtos_ok 0) (Some task_models)
                   (g_service_context real_ops)))) = None"
  by (simp add: blower_metrics_service_initialize_def g_service_context_def rtos_ok_def
        task_models_def default_models_def Let_def)

section \<open>The metrics service: a role without a sample\<close>

lemma cal_block_frame2 [simp]:
  "fan_sample_valid (snapshot (cal_block F p os fs fv es ev g)) = fan_sample_valid (snapshot g)"
  "envelope_sample_valid (snapshot (cal_block F p os fs fv es ev g)) =
     envelope_sample_valid (snapshot g)"
  "fan_temperature_c (snapshot (cal_block F p os fs fv es ev g)) = fan_temperature_c (snapshot g)"
  "envelope_temperature_c (snapshot (cal_block F p os fs fv es ev g)) =
     envelope_temperature_c (snapshot g)"
  "has_last_fan_pressure_raw (cal_block F p os fs fv es ev g) = has_last_fan_pressure_raw g"
  "has_last_envelope_pressure_raw (cal_block F p os fs fv es ev g) =
     has_last_envelope_pressure_raw g"
  by (simp_all add: cal_block_def cal_report_progress_def cal_finalize_def Let_def)

lemma checked_sample_null [simp]:
  "checked_sample None v = None" "checked_sample s False = None"
  by (simp_all add: checked_sample_def)

lemma update_fan_role_null [simp]:
  "update_fan_role F None True g = g\<lparr>snapshot := (snapshot g)\<lparr>fan_sample_valid := False\<rparr>\<rparr>"
  "update_fan_role F fs False g = g\<lparr>snapshot := (snapshot g)\<lparr>fan_sample_valid := False\<rparr>\<rparr>"
  by (simp_all add: update_fan_role_def)

lemma update_envelope_role_null [simp]:
  "update_envelope_role F None True g =
     g\<lparr>snapshot := (snapshot g)\<lparr>envelope_sample_valid := False\<rparr>\<rparr>"
  "update_envelope_role F es False g =
     g\<lparr>snapshot := (snapshot g)\<lparr>envelope_sample_valid := False\<rparr>\<rparr>"
  by (simp_all add: update_envelope_role_def)

lemma cal_accumulate_null:
  "cal_accumulate F None True es ev c = cal_accumulate F fs False es ev c"
  "cal_accumulate F fs fv None True c = cal_accumulate F fs fv es False c"
  "fan_sum (cal_accumulate F None True es ev c) = fan_sum c"
  "fan_count (cal_accumulate F None True es ev c) = fan_count c"
  "envelope_sum (cal_accumulate F fs fv None True c) = envelope_sum c"
  "envelope_count (cal_accumulate F fs fv None True c) = envelope_count c"
  by (simp_all add: cal_accumulate_def Let_def split: option.splits)

lemma cal_block_null:
  "cal_block F p os None True es ev g = cal_block F p os fs False es ev g"
  "cal_block F p os fs fv None True g = cal_block F p os fs fv es False g"
  by (simp_all add: cal_block_def Let_def cal_accumulate_null(1) [of F es ev _ fs]
        cal_accumulate_null(2) [of F fs fv _ es])

lemma update_null_sample_eq:
  "blower_metrics_service_update F p os None True es ev g =
   blower_metrics_service_update F p os fs False es ev g"
  "blower_metrics_service_update F p os fs fv None True g =
   blower_metrics_service_update F p os fs fv es False g"
  by (simp_all add: blower_metrics_service_update_def Let_def
        cal_block_null(1) [of F p os es ev _ fs] cal_block_null(2) [of F p os fs fv _ es])

section \<open>The metrics service: where the offsets change\<close>

text \<open>The offsets and published pressures after the calibration block, in every case.\<close>

lemma cal_block_offsets:
  "fan_pressure_offset_pa (cal_block F p os fs fv es ev g) =
     (if active (cal g) \<and>
         \<not> cal_elapsed_ms p (xTaskGetTickCount os 0) (start_tick (cal g)) < CALIBRATION_DURATION_MS \<and>
         CALIBRATION_MIN_SAMPLES \<le> fan_count (cal_accumulate F fs fv es ev (cal g))
      then f_div F (fan_sum (cal_accumulate F fs fv es ev (cal g)))
             (f_of_uint32 F (fan_count (cal_accumulate F fs fv es ev (cal g))))
      else fan_pressure_offset_pa g)"
  "envelope_pressure_offset_pa (cal_block F p os fs fv es ev g) =
     (if active (cal g) \<and>
         \<not> cal_elapsed_ms p (xTaskGetTickCount os 0) (start_tick (cal g)) < CALIBRATION_DURATION_MS \<and>
         CALIBRATION_MIN_SAMPLES \<le> envelope_count (cal_accumulate F fs fv es ev (cal g))
      then f_div F (envelope_sum (cal_accumulate F fs fv es ev (cal g)))
             (f_of_uint32 F (envelope_count (cal_accumulate F fs fv es ev (cal g))))
      else envelope_pressure_offset_pa g)"
  "fan_pressure_pa (snapshot (cal_block F p os fs fv es ev g)) =
     (if active (cal g) \<and>
         \<not> cal_elapsed_ms p (xTaskGetTickCount os 0) (start_tick (cal g)) < CALIBRATION_DURATION_MS \<and>
         CALIBRATION_MIN_SAMPLES \<le> fan_count (cal_accumulate F fs fv es ev (cal g))
      then f_sub F (last_fan_pressure_raw_pa g)
             (f_div F (fan_sum (cal_accumulate F fs fv es ev (cal g)))
                (f_of_uint32 F (fan_count (cal_accumulate F fs fv es ev (cal g)))))
      else fan_pressure_pa (snapshot g))"
  "envelope_pressure_pa (snapshot (cal_block F p os fs fv es ev g)) =
     (if active (cal g) \<and>
         \<not> cal_elapsed_ms p (xTaskGetTickCount os 0) (start_tick (cal g)) < CALIBRATION_DURATION_MS \<and>
         CALIBRATION_MIN_SAMPLES \<le> envelope_count (cal_accumulate F fs fv es ev (cal g))
      then f_sub F (last_envelope_pressure_raw_pa g)
             (f_div F (envelope_sum (cal_accumulate F fs fv es ev (cal g)))
                (f_of_uint32 F (envelope_count (cal_accumulate F fs fv es ev (cal g)))))
      else envelope_pressure_pa (snapshot g))"
  by (simp_all add: cal_block_def cal_report_progress_def cal_finalize_def Let_def)

lemma cal_block_accumulators:
  "fan_sum (cal (cal_block F p os fs fv es ev g)) =
     (if active (cal g) then fan_sum (cal_accumulate F fs fv es ev (cal g)) else fan_sum (cal g))"
  "fan_count (cal (cal_block F p os fs fv es ev g)) =
     (if active (cal g) then fan_count (cal_accumulate F fs fv es ev (cal g))
      else fan_count (cal g))"
  "envelope_sum (cal (cal_block F p os fs fv es ev g)) =
     (if active (cal g) then envelope_sum (cal_accumulate F fs fv es ev (cal g))
      else envelope_sum (cal g))"
  "envelope_count (cal (cal_block F p os fs fv es ev g)) =
     (if active (cal g) then envelope_count (cal_accumulate F fs fv es ev (cal g))
      else envelope_count (cal g))"
  by (simp_all add: cal_block_def cal_report_progress_def cal_finalize_def Let_def)

lemma update_offsets:
  assumes i: "is_initialized g"
      and u: "blower_metrics_service_update F p os fs fv es ev g = Some g'"
  shows "fan_pressure_offset_pa g' =
           (if \<not> Option.is_none (mutex g) \<and> xSemaphoreTake os \<and> active (cal g) \<and>
               \<not> cal_elapsed_ms p (xTaskGetTickCount os 0) (start_tick (cal g))
                   < CALIBRATION_DURATION_MS \<and>
               CALIBRATION_MIN_SAMPLES \<le> fan_count (cal_accumulate F fs fv es ev (cal g))
            then f_div F (fan_sum (cal_accumulate F fs fv es ev (cal g)))
                   (f_of_uint32 F (fan_count (cal_accumulate F fs fv es ev (cal g))))
            else fan_pressure_offset_pa g)"
    and "envelope_pressure_offset_pa g' =
           (if \<not> Option.is_none (mutex g) \<and> xSemaphoreTake os \<and> active (cal g) \<and>
               \<not> cal_elapsed_ms p (xTaskGetTickCount os 0) (start_tick (cal g))
                   < CALIBRATION_DURATION_MS \<and>
               CALIBRATION_MIN_SAMPLES \<le> envelope_count (cal_accumulate F fs fv es ev (cal g))
            then f_div F (envelope_sum (cal_accumulate F fs fv es ev (cal g)))
                   (f_of_uint32 F (envelope_count (cal_accumulate F fs fv es ev (cal g))))
            else envelope_pressure_offset_pa g)"
proof -
  show "fan_pressure_offset_pa g' =
           (if \<not> Option.is_none (mutex g) \<and> xSemaphoreTake os \<and> active (cal g) \<and>
               \<not> cal_elapsed_ms p (xTaskGetTickCount os 0) (start_tick (cal g))
                   < CALIBRATION_DURATION_MS \<and>
               CALIBRATION_MIN_SAMPLES \<le> fan_count (cal_accumulate F fs fv es ev (cal g))
            then f_div F (fan_sum (cal_accumulate F fs fv es ev (cal g)))
                   (f_of_uint32 F (fan_count (cal_accumulate F fs fv es ev (cal g))))
            else fan_pressure_offset_pa g)"
  proof (cases "\<not> Option.is_none (mutex g) \<and> xSemaphoreTake os")
    case False
    then have "g' = g"
      using i u by (auto simp: blower_metrics_service_update_def split: if_splits)
    then show ?thesis using False by auto
  next
    case True
    then have "recompute_and_stamp (xTaskGetTickCount os (if active (cal g) then 1 else 0))
             (cal_block F p os fs fv es ev
               (update_envelope_role F es ev (update_fan_role F fs fv g))) = Some g'"
      using i u by (simp add: update_initialized)
    from recompute_and_stamp_frame(5) [OF this] show ?thesis
      using True by (simp add: cal_block_offsets)
  qed
  show "envelope_pressure_offset_pa g' =
           (if \<not> Option.is_none (mutex g) \<and> xSemaphoreTake os \<and> active (cal g) \<and>
               \<not> cal_elapsed_ms p (xTaskGetTickCount os 0) (start_tick (cal g))
                   < CALIBRATION_DURATION_MS \<and>
               CALIBRATION_MIN_SAMPLES \<le> envelope_count (cal_accumulate F fs fv es ev (cal g))
            then f_div F (envelope_sum (cal_accumulate F fs fv es ev (cal g)))
                   (f_of_uint32 F (envelope_count (cal_accumulate F fs fv es ev (cal g))))
            else envelope_pressure_offset_pa g)"
  proof (cases "\<not> Option.is_none (mutex g) \<and> xSemaphoreTake os")
    case False
    then have "g' = g"
      using i u by (auto simp: blower_metrics_service_update_def split: if_splits)
    then show ?thesis using False by auto
  next
    case True
    then have "recompute_and_stamp (xTaskGetTickCount os (if active (cal g) then 1 else 0))
             (cal_block F p os fs fv es ev
               (update_envelope_role F es ev (update_fan_role F fs fv g))) = Some g'"
      using i u by (simp add: update_initialized)
    from recompute_and_stamp_frame(6) [OF this] show ?thesis
      using True by (simp add: cal_block_offsets)
  qed
qed

lemma capture_offsets:
  assumes "blower_metrics_service_capture_zero_offsets F os g = Some (b, g')"
  shows "fan_pressure_offset_pa g' =
           (if \<not> Option.is_none (mutex g) \<and> is_initialized g \<and> xSemaphoreTake os \<and>
               fan_sample_valid (snapshot g) \<and> has_last_fan_pressure_raw g
            then last_fan_pressure_raw_pa g else fan_pressure_offset_pa g)"
    and "envelope_pressure_offset_pa g' =
           (if \<not> Option.is_none (mutex g) \<and> is_initialized g \<and> xSemaphoreTake os \<and>
               envelope_sample_valid (snapshot g) \<and> has_last_envelope_pressure_raw g
            then last_envelope_pressure_raw_pa g else envelope_pressure_offset_pa g)"
  using assms
  by (auto simp: blower_metrics_service_capture_zero_offsets_def recompute_and_stamp_def Let_def
        split: if_splits option.splits)

text \<open>
  Claim C9, as the code has it.  The two offsets after each operation: an update of an
  initialised service sets a role's offset to the mean of its accumulator exactly when
  it takes the lock, finds the window over and the role's count is at least 20, and
  leaves it unchanged otherwise; a zero capture sets the offset of each captured role to
  its cached raw reading; \<open>begin_calibration\<close>, when it runs, and an initialisation that
  has a mutex reset both offsets to zero; reading the snapshot changes nothing.
\<close>

theorem offsets_change_points:
  "(\<forall>g'. is_initialized g \<and> blower_metrics_service_update F p os fs fv es ev g = Some g' \<longrightarrow>
      fan_pressure_offset_pa g' =
        (if \<not> Option.is_none (mutex g) \<and> xSemaphoreTake os \<and> active (cal g) \<and>
            \<not> cal_elapsed_ms p (xTaskGetTickCount os 0) (start_tick (cal g))
                < CALIBRATION_DURATION_MS \<and>
            CALIBRATION_MIN_SAMPLES \<le> fan_count (cal_accumulate F fs fv es ev (cal g))
         then f_div F (fan_sum (cal_accumulate F fs fv es ev (cal g)))
                (f_of_uint32 F (fan_count (cal_accumulate F fs fv es ev (cal g))))
         else fan_pressure_offset_pa g) \<and>
      envelope_pressure_offset_pa g' =
        (if \<not> Option.is_none (mutex g) \<and> xSemaphoreTake os \<and> active (cal g) \<and>
            \<not> cal_elapsed_ms p (xTaskGetTickCount os 0) (start_tick (cal g))
                < CALIBRATION_DURATION_MS \<and>
            CALIBRATION_MIN_SAMPLES \<le> envelope_count (cal_accumulate F fs fv es ev (cal g))
         then f_div F (envelope_sum (cal_accumulate F fs fv es ev (cal g)))
                (f_of_uint32 F (envelope_count (cal_accumulate F fs fv es ev (cal g))))
         else envelope_pressure_offset_pa g)) \<and>
   (\<forall>b g'. blower_metrics_service_capture_zero_offsets F os g = Some (b, g') \<longrightarrow>
      fan_pressure_offset_pa g' =
        (if \<not> Option.is_none (mutex g) \<and> is_initialized g \<and> xSemaphoreTake os \<and>
            fan_sample_valid (snapshot g) \<and> has_last_fan_pressure_raw g
         then last_fan_pressure_raw_pa g else fan_pressure_offset_pa g) \<and>
      envelope_pressure_offset_pa g' =
        (if \<not> Option.is_none (mutex g) \<and> is_initialized g \<and> xSemaphoreTake os \<and>
            envelope_sample_valid (snapshot g) \<and> has_last_envelope_pressure_raw g
         then last_envelope_pressure_raw_pa g else envelope_pressure_offset_pa g)) \<and>
   fan_pressure_offset_pa (blower_metrics_service_begin_calibration F os g) =
     (if \<not> Option.is_none (mutex g) \<and> is_initialized g \<and> xSemaphoreTake os
      then f_zero F else fan_pressure_offset_pa g) \<and>
   envelope_pressure_offset_pa (blower_metrics_service_begin_calibration F os g) =
     (if \<not> Option.is_none (mutex g) \<and> is_initialized g \<and> xSemaphoreTake os
      then f_zero F else envelope_pressure_offset_pa g) \<and>
   fan_pressure_offset_pa (blower_metrics_service_initialize F os m g) =
     (if Option.is_none (mutex g) \<and> Option.is_none (xSemaphoreCreateMutex os)
      then fan_pressure_offset_pa g else f_zero F) \<and>
   envelope_pressure_offset_pa (blower_metrics_service_initialize F os m g) =
     (if Option.is_none (mutex g) \<and> Option.is_none (xSemaphoreCreateMutex os)
      then envelope_pressure_offset_pa g else f_zero F) \<and>
   service_step F p (os, Call_get_snapshot out) g = Some (False, g)"
proof -
  have b: "fan_pressure_offset_pa (blower_metrics_service_begin_calibration F os g) =
     (if \<not> Option.is_none (mutex g) \<and> is_initialized g \<and> xSemaphoreTake os
      then f_zero F else fan_pressure_offset_pa g)"
    "envelope_pressure_offset_pa (blower_metrics_service_begin_calibration F os g) =
     (if \<not> Option.is_none (mutex g) \<and> is_initialized g \<and> xSemaphoreTake os
      then f_zero F else envelope_pressure_offset_pa g)"
    by (simp_all add: blower_metrics_service_begin_calibration_def)
  have n: "fan_pressure_offset_pa (blower_metrics_service_initialize F os m g) =
     (if Option.is_none (mutex g) \<and> Option.is_none (xSemaphoreCreateMutex os)
      then fan_pressure_offset_pa g else f_zero F)"
    "envelope_pressure_offset_pa (blower_metrics_service_initialize F os m g) =
     (if Option.is_none (mutex g) \<and> Option.is_none (xSemaphoreCreateMutex os)
      then envelope_pressure_offset_pa g else f_zero F)"
    by (auto simp: blower_metrics_service_initialize_def Let_def Option.is_none_def
          split: option.splits)
  show ?thesis
  proof (intro conjI allI impI)
    fix g'
    assume "is_initialized g \<and> blower_metrics_service_update F p os fs fv es ev g = Some g'"
    then have i: "is_initialized g"
      and u: "blower_metrics_service_update F p os fs fv es ev g = Some g'"
      by simp_all
    show "fan_pressure_offset_pa g' =
        (if \<not> Option.is_none (mutex g) \<and> xSemaphoreTake os \<and> active (cal g) \<and>
            \<not> cal_elapsed_ms p (xTaskGetTickCount os 0) (start_tick (cal g))
                < CALIBRATION_DURATION_MS \<and>
            CALIBRATION_MIN_SAMPLES \<le> fan_count (cal_accumulate F fs fv es ev (cal g))
         then f_div F (fan_sum (cal_accumulate F fs fv es ev (cal g)))
                (f_of_uint32 F (fan_count (cal_accumulate F fs fv es ev (cal g))))
         else fan_pressure_offset_pa g)"
      by (rule update_offsets(1) [OF i u])
    show "envelope_pressure_offset_pa g' =
        (if \<not> Option.is_none (mutex g) \<and> xSemaphoreTake os \<and> active (cal g) \<and>
            \<not> cal_elapsed_ms p (xTaskGetTickCount os 0) (start_tick (cal g))
                < CALIBRATION_DURATION_MS \<and>
            CALIBRATION_MIN_SAMPLES \<le> envelope_count (cal_accumulate F fs fv es ev (cal g))
         then f_div F (envelope_sum (cal_accumulate F fs fv es ev (cal g)))
                (f_of_uint32 F (envelope_count (cal_accumulate F fs fv es ev (cal g))))
         else envelope_pressure_offset_pa g)"
      by (rule update_offsets(2) [OF i u])
  next
    fix b g'
    assume c: "blower_metrics_service_capture_zero_offsets F os g = Some (b, g')"
    show "fan_pressure_offset_pa g' =
        (if \<not> Option.is_none (mutex g) \<and> is_initialized g \<and> xSemaphoreTake os \<and>
            fan_sample_valid (snapshot g) \<and> has_last_fan_pressure_raw g
         then last_fan_pressure_raw_pa g else fan_pressure_offset_pa g)"
      by (rule capture_offsets(1) [OF c])
    show "envelope_pressure_offset_pa g' =
        (if \<not> Option.is_none (mutex g) \<and> is_initialized g \<and> xSemaphoreTake os \<and>
            envelope_sample_valid (snapshot g) \<and> has_last_envelope_pressure_raw g
         then last_envelope_pressure_raw_pa g else envelope_pressure_offset_pa g)"
      by (rule capture_offsets(2) [OF c])
  qed (simp_all add: b n)
qed

section \<open>The metrics service: a valid flag with a null sample\<close>

lemma role_frames [simp]:
  "fan_sample_valid (snapshot (update_envelope_role F es ev g)) = fan_sample_valid (snapshot g)"
  "fan_temperature_c (snapshot (update_envelope_role F es ev g)) = fan_temperature_c (snapshot g)"
  "has_last_fan_pressure_raw (update_envelope_role F es ev g) = has_last_fan_pressure_raw g"
  "envelope_sample_valid (snapshot (update_fan_role F fs fv g)) =
     envelope_sample_valid (snapshot g)"
  "envelope_temperature_c (snapshot (update_fan_role F fs fv g)) =
     envelope_temperature_c (snapshot g)"
  "has_last_envelope_pressure_raw (update_fan_role F fs fv g) = has_last_envelope_pressure_raw g"
  by (simp_all add: update_fan_role_def update_envelope_role_def split: option.splits)

text \<open>
  Claim C10, as the code has it.  An update gives the same result for a role whose
  validity flag is true and whose sample pointer is \<open>NULL\<close> as for a role whose flag is
  false.  When the update takes the lock on an initialised service, the role's validity
  flag in the snapshot is false afterwards, its temperature, its cached raw reading and
  its accumulator sum and count are unchanged, and its published pressure is unchanged
  unless this update finalises a window in which the role has at least 20 samples: then
  it is the cached raw reading minus the new offset.
\<close>

theorem null_sample_handled_as_invalid:
  assumes i: "is_initialized g" and mx: "\<not> Option.is_none (mutex g)" and t: "xSemaphoreTake os"
  shows "blower_metrics_service_update F p os None True es ev g =
           blower_metrics_service_update F p os fs False es ev g \<and>
         blower_metrics_service_update F p os fs fv None True g =
           blower_metrics_service_update F p os fs fv es False g \<and>
         (\<forall>g'. blower_metrics_service_update F p os None True es ev g = Some g' \<longrightarrow>
            \<not> fan_sample_valid (snapshot g') \<and>
            fan_temperature_c (snapshot g') = fan_temperature_c (snapshot g) \<and>
            last_fan_pressure_raw_pa g' = last_fan_pressure_raw_pa g \<and>
            has_last_fan_pressure_raw g' = has_last_fan_pressure_raw g \<and>
            fan_sum (cal g') = fan_sum (cal g) \<and> fan_count (cal g') = fan_count (cal g) \<and>
            fan_pressure_pa (snapshot g') =
              (if active (cal g) \<and>
                  \<not> cal_elapsed_ms p (xTaskGetTickCount os 0) (start_tick (cal g))
                      < CALIBRATION_DURATION_MS \<and>
                  CALIBRATION_MIN_SAMPLES \<le> fan_count (cal g)
               then f_sub F (last_fan_pressure_raw_pa g)
                      (f_div F (fan_sum (cal g)) (f_of_uint32 F (fan_count (cal g))))
               else fan_pressure_pa (snapshot g))) \<and>
         (\<forall>g'. blower_metrics_service_update F p os fs fv None True g = Some g' \<longrightarrow>
            \<not> envelope_sample_valid (snapshot g') \<and>
            envelope_temperature_c (snapshot g') = envelope_temperature_c (snapshot g) \<and>
            last_envelope_pressure_raw_pa g' = last_envelope_pressure_raw_pa g \<and>
            has_last_envelope_pressure_raw g' = has_last_envelope_pressure_raw g \<and>
            envelope_sum (cal g') = envelope_sum (cal g) \<and>
            envelope_count (cal g') = envelope_count (cal g) \<and>
            envelope_pressure_pa (snapshot g') =
              (if active (cal g) \<and>
                  \<not> cal_elapsed_ms p (xTaskGetTickCount os 0) (start_tick (cal g))
                      < CALIBRATION_DURATION_MS \<and>
                  CALIBRATION_MIN_SAMPLES \<le> envelope_count (cal g)
               then f_sub F (last_envelope_pressure_raw_pa g)
                      (f_div F (envelope_sum (cal g)) (f_of_uint32 F (envelope_count (cal g))))
               else envelope_pressure_pa (snapshot g)))"
proof (intro conjI allI impI)
  show "blower_metrics_service_update F p os None True es ev g =
        blower_metrics_service_update F p os fs False es ev g"
    by (rule update_null_sample_eq(1))
  show "blower_metrics_service_update F p os fs fv None True g =
        blower_metrics_service_update F p os fs fv es False g"
    by (rule update_null_sample_eq(2))
next
  fix g'
  assume u: "blower_metrics_service_update F p os None True es ev g = Some g'"
  define g2 where "g2 = update_envelope_role F es ev (update_fan_role F None True g)"
  have r: "recompute_and_stamp (xTaskGetTickCount os (if active (cal g) then 1 else 0))
             (cal_block F p os None True es ev g2) = Some g'"
    using i mx t u by (simp add: update_initialized g2_def)
  note fr = recompute_and_stamp_frame [OF r]
  have c2: "cal g2 = cal g" "last_fan_pressure_raw_pa g2 = last_fan_pressure_raw_pa g"
      "fan_pressure_pa (snapshot g2) = fan_pressure_pa (snapshot g)"
      "\<not> fan_sample_valid (snapshot g2)"
      "fan_temperature_c (snapshot g2) = fan_temperature_c (snapshot g)"
      "has_last_fan_pressure_raw g2 = has_last_fan_pressure_raw g"
    by (simp_all add: g2_def)
  show "\<not> fan_sample_valid (snapshot g')" using fr(15) c2 by simp
  show "fan_temperature_c (snapshot g') = fan_temperature_c (snapshot g)"
    using fr(13) c2 by simp
  show "last_fan_pressure_raw_pa g' = last_fan_pressure_raw_pa g" using fr(7) c2 by simp
  show "has_last_fan_pressure_raw g' = has_last_fan_pressure_raw g" using fr(9) c2 by simp
  show "fan_sum (cal g') = fan_sum (cal g)"
    using fr(4) c2 by (simp add: cal_block_accumulators cal_accumulate_null)
  show "fan_count (cal g') = fan_count (cal g)"
    using fr(4) c2 by (simp add: cal_block_accumulators cal_accumulate_null)
  show "fan_pressure_pa (snapshot g') =
              (if active (cal g) \<and>
                  \<not> cal_elapsed_ms p (xTaskGetTickCount os 0) (start_tick (cal g))
                      < CALIBRATION_DURATION_MS \<and>
                  CALIBRATION_MIN_SAMPLES \<le> fan_count (cal g)
               then f_sub F (last_fan_pressure_raw_pa g)
                      (f_div F (fan_sum (cal g)) (f_of_uint32 F (fan_count (cal g))))
               else fan_pressure_pa (snapshot g))"
    using fr(11) c2 by (simp add: cal_block_offsets cal_accumulate_null)
next
  fix g'
  assume u: "blower_metrics_service_update F p os fs fv None True g = Some g'"
  define g2 where "g2 = update_envelope_role F None True (update_fan_role F fs fv g)"
  have r: "recompute_and_stamp (xTaskGetTickCount os (if active (cal g) then 1 else 0))
             (cal_block F p os fs fv None True g2) = Some g'"
    using i mx t u by (simp add: update_initialized g2_def)
  note fr = recompute_and_stamp_frame [OF r]
  have c2: "cal g2 = cal g" "last_envelope_pressure_raw_pa g2 = last_envelope_pressure_raw_pa g"
      "envelope_pressure_pa (snapshot g2) = envelope_pressure_pa (snapshot g)"
      "\<not> envelope_sample_valid (snapshot g2)"
      "envelope_temperature_c (snapshot g2) = envelope_temperature_c (snapshot g)"
      "has_last_envelope_pressure_raw g2 = has_last_envelope_pressure_raw g"
    by (simp_all add: g2_def)
  show "\<not> envelope_sample_valid (snapshot g')" using fr(16) c2 by simp
  show "envelope_temperature_c (snapshot g') = envelope_temperature_c (snapshot g)"
    using fr(14) c2 by simp
  show "last_envelope_pressure_raw_pa g' = last_envelope_pressure_raw_pa g"
    using fr(8) c2 by simp
  show "has_last_envelope_pressure_raw g' = has_last_envelope_pressure_raw g"
    using fr(10) c2 by simp
  show "envelope_sum (cal g') = envelope_sum (cal g)"
    using fr(4) c2 by (simp add: cal_block_accumulators cal_accumulate_null)
  show "envelope_count (cal g') = envelope_count (cal g)"
    using fr(4) c2 by (simp add: cal_block_accumulators cal_accumulate_null)
  show "envelope_pressure_pa (snapshot g') =
              (if active (cal g) \<and>
                  \<not> cal_elapsed_ms p (xTaskGetTickCount os 0) (start_tick (cal g))
                      < CALIBRATION_DURATION_MS \<and>
                  CALIBRATION_MIN_SAMPLES \<le> envelope_count (cal g)
               then f_sub F (last_envelope_pressure_raw_pa g)
                      (f_div F (envelope_sum (cal g)) (f_of_uint32 F (envelope_count (cal g))))
               else envelope_pressure_pa (snapshot g))"
    using fr(12) c2 by (simp add: cal_block_offsets cal_accumulate_null)
qed

section \<open>The theorems at concrete inputs\<close>

text \<open>
  Against claim C10 as stated: after a calibration begun at tick 0 and twenty cycles
  with a fan sample of 2 Pa the published fan pressure is 2; the update at tick 10000
  whose fan flag is true and whose fan pointer is \<open>NULL\<close> finalises the window and
  publishes 0.
\<close>

theorem null_sample_pressure_recomputed_counterexample:
  "fan_pressure_after (service_run real_ops 1 (fan_cycles 20) g_calibrating) = Some 2 \<and>
   fan_pressure_after
     (service_run real_ops 1
        (fan_cycles 20 @ [(rtos_ok 10000, Call_update None True None False)]) g_calibrating)
     = Some 0"
  by code_simp

text \<open>
  Against claim C9 as stated: after an update with a fan sample of 5 Pa and a zero
  capture the fan offset is 5; \<open>begin_calibration\<close> makes it 0.
\<close>

theorem begin_calibration_resets_offsets_counterexample:
  "fan_offset_after
     (service_run real_ops 1
        [(rtos_ok 1, Call_update (Some (pa 5)) True None False),
         (rtos_ok 2, Call_capture_zero_offsets)] g_ready) = Some 5 \<and>
   fan_offset_after
     (service_run real_ops 1
        [(rtos_ok 1, Call_update (Some (pa 5)) True None False),
         (rtos_ok 2, Call_capture_zero_offsets),
         (rtos_ok 3, Call_begin_calibration)] g_ready) = Some 0"
  by code_simp

text \<open>
  Against claim C1 as stated: \<open>begin_calibration\<close> changes the published snapshot
  (the calibration state goes from Idle to Sampling) and the sequence number stays.
\<close>

theorem begin_calibration_keeps_sequence_counterexample:
  "calibration_state (snapshot g_ready) = BLOWER_CAL_IDLE \<and>
   calibration_state
     (snapshot (blower_metrics_service_begin_calibration real_ops (rtos_ok 5) g_ready)) =
     BLOWER_CAL_SAMPLING \<and>
   update_sequence
     (snapshot (blower_metrics_service_begin_calibration real_ops (rtos_ok 5) g_ready)) =
     update_sequence (snapshot g_ready)"
  by code_simp

theorem update_sequence_counts_ingestions_witness:
  "service_wf (g_service_context real_ops) \<and>
   (\<exists>g'. service_run real_ops 1 mixed_calls (g_service_context real_ops) = Some (4, g') \<and>
         update_sequence (snapshot g') = 4)"
proof -
  have wf: "service_wf (g_service_context real_ops)"
    by (simp add: service_wf_def g_service_context_def snapshot_zero_def)
  have n: "map_option fst (service_run real_ops 1 mixed_calls (g_service_context real_ops)) = Some 4"
    by code_simp
  have z: "update_sequence (snapshot (g_service_context real_ops)) = 0"
    by (simp add: g_service_context_def snapshot_zero_def)
  obtain k g' where r: "service_run real_ops 1 mixed_calls (g_service_context real_ops) = Some (k, g')"
      "update_sequence (snapshot g') =
         update_sequence (snapshot (g_service_context real_ops)) + of_nat k"
    using update_sequence_counts_ingestions [OF wf, of real_ops 1 mixed_calls] by blast
  have "k = 4" using n r(1) by simp
  then show ?thesis using wf r z by simp
qed

theorem calibration_window_progress_witness:
  "(\<exists>n g1 g2.
      service_run real_ops 10 [(rtos_ok 115, Call_update (Some (pa 3)) True None False)]
        (blower_metrics_service_begin_calibration real_ops (rtos_ok 100) g_ready) = Some (n, g1) \<and>
      blower_metrics_service_update real_ops 10 (rtos_ok 350) None False None False g1 = Some g2 \<and>
      calibration_state (snapshot g2) = BLOWER_CAL_SAMPLING \<and>
      unat (calibration_progress_pct (snapshot g2)) = 25 \<and> active (cal g2)) \<and>
   (\<exists>n g1 g2.
      service_run real_ops 10 [(rtos_ok 115, Call_update (Some (pa 3)) True None False)]
        (blower_metrics_service_begin_calibration real_ops (rtos_ok 100) g_ready) = Some (n, g1) \<and>
      blower_metrics_service_update real_ops 10 (rtos_ok 1100) None False None False g1 = Some g2 \<and>
      calibration_state (snapshot g2) = BLOWER_CAL_DONE \<and>
      calibration_progress_pct (snapshot g2) = 100 \<and> \<not> active (cal g2))"
proof -
  have a: "is_initialized g_ready" "\<not> Option.is_none (mutex g_ready)"
      "\<not> Option.is_none (fan_speed_model (models g_ready))"
      "\<not> Option.is_none (air_leakage_model (models g_ready))"
      "xSemaphoreTake (rtos_ok 100)" "xSemaphoreTake (rtos_ok 350)"
      "xSemaphoreTake (rtos_ok 1100)"
    by (simp_all add: g_ready_def blower_metrics_service_initialize_def g_service_context_def
          rtos_ok_def default_models_def Let_def)
  have w: "\<forall>c\<in>set [(15, rtos_ok 115, Call_update (Some (pa 3)) True None False)].
             elapsed_inside 10 (xTaskGetTickCount (rtos_ok 100) 0) c"
    by (simp add: elapsed_inside_def rtos_ok_def)
  have t1: "xTaskGetTickCount (rtos_ok 350) 0 = xTaskGetTickCount (rtos_ok 100) 0 + of_nat 250"
    and t2: "xTaskGetTickCount (rtos_ok 1100) 0 = xTaskGetTickCount (rtos_ok 100) 0 + of_nat 1000"
    by (simp_all add: rtos_ok_def)
  have u: "unat (10 :: TickType_t) = 10" by simp
  have b1: "250 * unat (10 :: TickType_t) < 2 ^ 32"
    and b2: "1000 * unat (10 :: TickType_t) < 2 ^ 32"
    unfolding u by simp_all
  have m: "map snd [(15 :: nat, rtos_ok 115, Call_update (Some (pa 3)) True None False)] =
             [(rtos_ok 115, Call_update (Some (pa 3)) True None False)]"
    by simp
  have c1: "(250 * unat (10 :: TickType_t) < 10000) = True"
    and c2: "(1000 * unat (10 :: TickType_t) < 10000) = False"
    and c3: "min 99 (250 * unat (10 :: TickType_t) * 100 div 10000) = (25 :: nat)"
    unfolding u by simp_all
  note i1 = calibration_window_progress [OF a(1) a(2) a(3) a(4) a(5) w a(6) t1 b1,
            of real_ops None False None False, unfolded m c1 c3 if_True]
  note i2 = calibration_window_progress [OF a(1) a(2) a(3) a(4) a(5) w a(7) t2 b2,
            of real_ops None False None False, unfolded m c2 if_False]
  show ?thesis
    using i1 i2 by (rule conjI)
qed

text \<open>
  Against claim C4 as stated: with a tick period of 10 ms, the first update after
  \<open>begin_calibration\<close> at tick 0 comes 429496730 ticks later, 4294967300 ms; the 32-bit
  product is 4, and the update reports Sampling with progress 0 and stays active.
\<close>

theorem elapsed_ms_wraps_counterexample:
  "xTaskGetTickCount (rtos_ok 429496730) 0 = xTaskGetTickCount (rtos_ok 0) 0 + of_nat 429496730 \<and>
   (10000 :: nat) \<le> 429496730 * unat (10 :: TickType_t) \<and>
   calibration_report
     (blower_metrics_service_update real_ops 10 (rtos_ok 429496730) None False None False
        g_calibrating) = Some (BLOWER_CAL_SAMPLING, 0, True)"
proof -
  have "calibration_report
     (blower_metrics_service_update real_ops 10 (rtos_ok 429496730) None False None False
        g_calibrating) = Some (BLOWER_CAL_SAMPLING, 0, True)"
    by code_simp
  then show ?thesis by (simp add: rtos_ok_def)
qed

theorem calibration_finalization_per_role_witness:
  "\<exists>n g1 g2.
     service_run real_ops 1 window_cycles g_calibrating = Some (n, g1) \<and>
     blower_metrics_service_update real_ops 1 (rtos_ok 10000) None False None False g1 = Some g2 \<and>
     fan_pressure_offset_pa g2 = fan_pressure_offset_pa g1 \<and>
     envelope_pressure_offset_pa g2 = 2 \<and>
     envelope_pressure_pa (snapshot g2) = last_envelope_pressure_raw_pa g2 - 2"
proof -
  have a: "is_initialized g_ready" "\<not> Option.is_none (mutex g_ready)"
      "\<not> Option.is_none (fan_speed_model (models g_ready))"
      "\<not> Option.is_none (air_leakage_model (models g_ready))"
      "xSemaphoreTake (rtos_ok 0)" "xSemaphoreTake (rtos_ok 10000)"
    by (simp_all add: g_ready_def blower_metrics_service_initialize_def g_service_context_def
          rtos_ok_def default_models_def Let_def)
  have w: "\<forall>c\<in>set window_cycles. in_window 1 (xTaskGetTickCount (rtos_ok 0) 0) c"
    by (simp add: window_cycles_def in_window_def rtos_ok_def cal_elapsed_ms_def
          CALIBRATION_DURATION_MS_def)
  have e: "\<not> cal_elapsed_ms 1 (xTaskGetTickCount (rtos_ok 10000) 0)
              (xTaskGetTickCount (rtos_ok 0) 0) < CALIBRATION_DURATION_MS"
    by (simp add: rtos_ok_def cal_elapsed_ms_def CALIBRATION_DURATION_MS_def)
  have fan: "(CALIBRATION_MIN_SAMPLES \<le>
                (of_nat (length (concat (map fan_contribution
                   (window_cycles @ [(rtos_ok 10000, Call_update None False None False)]))))
                 :: uint32_t)) = False"
    by code_simp
  have env: "(CALIBRATION_MIN_SAMPLES \<le>
                (of_nat (length (concat (map envelope_contribution
                   (window_cycles @ [(rtos_ok 10000, Call_update None False None False)]))))
                 :: uint32_t)) = True"
    by code_simp
  have mean: "f_div real_ops
                (foldl (f_add real_ops) (f_zero real_ops)
                   (concat (map envelope_contribution
                      (window_cycles @ [(rtos_ok 10000, Call_update None False None False)]))))
                (f_of_uint32 real_ops
                   (of_nat (length (concat (map envelope_contribution
                      (window_cycles @ [(rtos_ok 10000, Call_update None False None False)])))))) = 2"
    by code_simp
  have sub: "f_sub real_ops = (-)" by (simp add: real_ops_def)
  show ?thesis
    using calibration_finalization_per_role [OF a(1) a(2) a(3) a(4) a(5) w a(6) e,
            of real_ops None False None False]
    unfolding Let_def fan env mean g_calibrating_def [symmetric] sub
    by auto
qed

theorem offsets_change_points_witness:
  "fan_pressure_offset_pa
     (blower_metrics_service_begin_calibration real_ops (rtos_ok 3) g_sampled) = 0 \<and>
   (\<exists>g'. blower_metrics_service_capture_zero_offsets real_ops (rtos_ok 2) g_sampled =
            Some (True, g') \<and> fan_pressure_offset_pa g' = 5) \<and>
   (\<exists>g'. blower_metrics_service_update real_ops 1 (rtos_ok 4) (Some (pa 7)) True None False
            g_sampled = Some g' \<and> fan_pressure_offset_pa g' = 0)"
proof -
  have a: "is_initialized g_sampled" "\<not> Option.is_none (mutex g_sampled)"
      "xSemaphoreTake (rtos_ok 2)" "xSemaphoreTake (rtos_ok 3)"
      "fan_sample_valid (snapshot g_sampled)" "has_last_fan_pressure_raw g_sampled"
      "last_fan_pressure_raw_pa g_sampled = 5" "fan_pressure_offset_pa g_sampled = 0"
      "\<not> active (cal g_sampled)" "f_zero real_ops = 0"
    by (simp_all add: evals default_models_def)
  have c: "map_option fst (blower_metrics_service_capture_zero_offsets real_ops (rtos_ok 2) g_sampled)
             = Some True"
    by code_simp
  then obtain gc where gc:
      "blower_metrics_service_capture_zero_offsets real_ops (rtos_ok 2) g_sampled = Some (True, gc)"
    by auto
  have u: "\<not> Option.is_none
             (blower_metrics_service_update real_ops 1 (rtos_ok 4) (Some (pa 7)) True None False
                g_sampled)"
    by code_simp
  then obtain gu where gu:
      "blower_metrics_service_update real_ops 1 (rtos_ok 4) (Some (pa 7)) True None False g_sampled
         = Some gu"
    by (auto simp: Option.is_none_def)
  have "fan_pressure_offset_pa gu = 0"
    using offsets_change_points [of g_sampled real_ops 1 "rtos_ok 4" "Some (pa 7)" True None False,
            THEN conjunct1, rule_format, OF conjI, OF a(1) gu] a
    by simp
  moreover have "fan_pressure_offset_pa gc = 5"
    using offsets_change_points [of g_sampled real_ops 1 "rtos_ok 2" None False None False,
            THEN conjunct2, THEN conjunct1, rule_format, OF gc] a
    by simp
  moreover have "fan_pressure_offset_pa
     (blower_metrics_service_begin_calibration real_ops (rtos_ok 3) g_sampled) = 0"
    using offsets_change_points [of g_sampled real_ops 1 "rtos_ok 3" None False None False,
            THEN conjunct2, THEN conjunct2, THEN conjunct1] a
    by simp
  ultimately show ?thesis using gc gu by blast
qed

theorem null_sample_handled_as_invalid_witness:
  "\<exists>g'. blower_metrics_service_update real_ops 1 (rtos_ok 9) None True None False g_sampled
          = Some g' \<and>
        blower_metrics_service_update real_ops 1 (rtos_ok 9) (Some (pa 8)) False None False
          g_sampled = Some g' \<and>
        \<not> fan_sample_valid (snapshot g') \<and> fan_pressure_pa (snapshot g') = 5 \<and>
        last_fan_pressure_raw_pa g' = 5"
proof -
  have a: "is_initialized g_sampled" "\<not> Option.is_none (mutex g_sampled)"
      "xSemaphoreTake (rtos_ok 9)" "\<not> active (cal g_sampled)"
      "last_fan_pressure_raw_pa g_sampled = 5" "fan_pressure_pa (snapshot g_sampled) = 5"
    by (simp_all add: evals default_models_def)
  have u: "\<not> Option.is_none
             (blower_metrics_service_update real_ops 1 (rtos_ok 9) None True None False g_sampled)"
    by code_simp
  then obtain g' where g':
      "blower_metrics_service_update real_ops 1 (rtos_ok 9) None True None False g_sampled = Some g'"
    by (auto simp: Option.is_none_def)
  note t = null_sample_handled_as_invalid [OF a(1) a(2) a(3),
            where F = real_ops and p = 1 and es = None and ev = False and fs = "Some (pa 8)"
              and fv = False]
  have e: "blower_metrics_service_update real_ops 1 (rtos_ok 9) (Some (pa 8)) False None False
             g_sampled = Some g'"
    using t [THEN conjunct1] g' by simp
  have "\<not> fan_sample_valid (snapshot g')" "fan_pressure_pa (snapshot g') = 5"
       "last_fan_pressure_raw_pa g' = 5"
    using t [THEN conjunct2, THEN conjunct2, THEN conjunct1, rule_format, OF g'] a(4-6)
    by simp_all
  then show ?thesis using g' e by blast
qed

end
